theory Spec2Isabelle
  imports Main
begin

section \<open>JavaScript values as the handler sees them\<close>

text \<open>
  The contact-form function receives \<^verbatim>\<open>req.body\<close>, a value parsed from JSON (or
  absent), and reads it with the dynamic operators of JavaScript: truthiness
  (\<^verbatim>\<open>!name\<close>, \<^verbatim>\<open>a || b\<close>), conversion to a string (template literals,
  \<^verbatim>\<open>String(text)\<close>, \<^verbatim>\<open>RegExp.prototype.test\<close>, \<^verbatim>\<open>Array.prototype.join\<close>) and property
  lookup. The values below are the JSON values and \<^verbatim>\<open>undefined\<close>.

  \<^item> A string is a list of characters; a character stands for one code unit below 256.
  \<^item> A number is given by its decimal rendering (what \<^verbatim>\<open>String(n)\<close> returns): the
    handler only ever tests a number for truthiness and converts it to a string, and both
    are functions of the rendering (\<^verbatim>\<open>0\<close>, \<^verbatim>\<open>-0\<close> render as 0 and are falsy, as is NaN).
  \<^item> An object is the list of its own properties, each key once.
\<close>

datatype jsval =
    JUndefined
  | JNull
  | JBool bool
  | JNum string
  | JStr string
  | JArr "jsval list"
  | JObj "(string \<times> jsval) list"

text \<open>A thrown value: an \<^verbatim>\<open>Error\<close> object with its name and its message.\<close>

datatype js_error = JsError (err_name: string) (err_message: string)

text \<open>Truthiness (ToBoolean): what \<^verbatim>\<open>if (v)\<close>, \<^verbatim>\<open>!v\<close> and \<^verbatim>\<open>v || w\<close> test.\<close>

fun truthy :: "jsval \<Rightarrow> bool" where
  "truthy JUndefined = False"
| "truthy JNull = False"
| "truthy (JBool b) = b"
| "truthy (JNum r) = (r \<noteq> ''0'' \<and> r \<noteq> ''NaN'')"
| "truthy (JStr s) = (s \<noteq> [])"
| "truthy (JArr xs) = True"
| "truthy (JObj kvs) = True"

text \<open>\<^verbatim>\<open>a || b\<close>\<close>

definition js_or :: "jsval \<Rightarrow> jsval \<Rightarrow> jsval" where
  "js_or a b = (if truthy a then a else b)"

text \<open>
  Conversion to a string (ToString). A plain object converts through
  \<^verbatim>\<open>Object.prototype.toString\<close> to \<^verbatim>\<open>[object Object]\<close>, unless it has an own property
  \<^verbatim>\<open>toString\<close>: a JSON value is never callable, so the conversion then finds no usable
  method (\<^verbatim>\<open>valueOf\<close> returns the object itself) and throws a TypeError. An array
  converts through \<^verbatim>\<open>join(',')\<close>, which renders \<^verbatim>\<open>undefined\<close> and \<^verbatim>\<open>null\<close> elements as
  the empty string and converts the others in order.
\<close>

definition cannot_convert :: js_error where
  "cannot_convert = JsError ''TypeError'' ''Cannot convert object to primitive value''"

fun to_string :: "jsval \<Rightarrow> js_error + string"
  and js_join :: "string \<Rightarrow> jsval list \<Rightarrow> js_error + string" where
  "to_string JUndefined = Inr ''undefined''"
| "to_string JNull = Inr ''null''"
| "to_string (JBool b) = Inr (if b then ''true'' else ''false'')"
| "to_string (JNum r) = Inr r"
| "to_string (JStr s) = Inr s"
| "to_string (JArr xs) = js_join '','' xs"
| "to_string (JObj kvs) =
     (if ''toString'' \<in> fst ` set kvs then Inl cannot_convert else Inr ''[object Object]'')"
| "js_join sep [] = Inr []"
| "js_join sep (x # xs) =
     (case (if x = JUndefined \<or> x = JNull then Inr [] else to_string x) of
        Inl e \<Rightarrow> Inl e
      | Inr a \<Rightarrow>
          if xs = [] then Inr a
          else (case js_join sep xs of Inl e \<Rightarrow> Inl e | Inr r \<Rightarrow> Inr (a @ sep @ r)))"

text \<open>
  Reading a property of a value, for the keys this program reads (\<^verbatim>\<open>name\<close>, \<^verbatim>\<open>email\<close>,
  \<^verbatim>\<open>company\<close>, \<^verbatim>\<open>interests\<close>, \<^verbatim>\<open>message\<close>, \<^verbatim>\<open>honeypot\<close>, \<^verbatim>\<open>access_token\<close>): none of
  them is a property of a prototype, so only an object's own properties answer.
  Reading a property of \<^verbatim>\<open>undefined\<close> or \<^verbatim>\<open>null\<close> throws a TypeError.
\<close>

definition own_property :: "jsval \<Rightarrow> string \<Rightarrow> jsval" where
  "own_property v k =
     (case v of
        JObj kvs \<Rightarrow> (case map_of kvs k of None \<Rightarrow> JUndefined | Some x \<Rightarrow> x)
      | _ \<Rightarrow> JUndefined)"

definition get_property :: "jsval \<Rightarrow> string \<Rightarrow> js_error + jsval" where
  "get_property v k =
     (if v = JUndefined \<or> v = JNull
      then Inl (JsError ''TypeError'' (''Cannot read properties of '' @
                  (if v = JNull then ''null'' else ''undefined'') @
                  '' (reading '' @ [CHR 0x27] @ k @ [CHR 0x27] @ '')''))
      else Inr (own_property v k))"

section \<open>escapeHtml\<close>

text \<open>
  \<^verbatim>\<open>
  function escapeHtml(text) {
      if (!text) return '';
      const htmlEntities = { '&': '&amp;', '<': '&lt;', '>': '&gt;', '"': '&quot;', "'": '&#39;' };
      return String(text).replace(/[&<>"']/g, char => htmlEntities[char]);
  }
  \<close>
  The global replace visits every character; a character of the class is replaced by
  the table's entry for it (a missing entry would be rendered \<^verbatim>\<open>undefined\<close>).
\<close>

definition htmlEntities :: "char \<Rightarrow> string option" where
  "htmlEntities = map_of
     [(CHR ''&'', ''&amp;''), (CHR ''<'', ''&lt;''), (CHR ''>'', ''&gt;''),
      (CHR 0x22, ''&quot;''), (CHR 0x27, ''&#39;'')]"

definition html_special :: "char \<Rightarrow> bool" where
  "html_special c = (c \<in> set [CHR ''&'', CHR ''<'', CHR ''>'', CHR 0x22, CHR 0x27])"

definition replace_special :: "string \<Rightarrow> string" where
  "replace_special s =
     concat (map (\<lambda>c. if html_special c
                       then (case htmlEntities c of None \<Rightarrow> ''undefined'' | Some e \<Rightarrow> e)
                       else [c]) s)"

definition escapeHtml :: "jsval \<Rightarrow> js_error + string" where
  "escapeHtml v =
     (if \<not> truthy v then Inr []
      else (case to_string v of Inl e \<Rightarrow> Inl e | Inr s \<Rightarrow> Inr (replace_special s)))"

section \<open>The email pattern\<close>

text \<open>
  \<^verbatim>\<open>const emailRegex = /^[^\s@]+@[^\s@]+\.[^\s@]+$/;\<close>
  The pattern is anchored at both ends and is a sequence of character classes, each
  taken once or (with \<^verbatim>\<open>+\<close>) one or more times. Such a pattern is a list of items, and
  matching tries, as the backtracking matcher does, both to stop and to continue a
  repeated class.
\<close>

datatype rx_item = Once "char \<Rightarrow> bool" | Many "char \<Rightarrow> bool"

fun rx_match :: "rx_item list \<Rightarrow> string \<Rightarrow> bool" where
  "rx_match [] s = (s = [])"
| "rx_match (Once p # r) [] = False"
| "rx_match (Once p # r) (c # s) = (p c \<and> rx_match r s)"
| "rx_match (Many p # r) [] = False"
| "rx_match (Many p # r) (c # s) = (p c \<and> (rx_match r s \<or> rx_match (Many p # r) s))"

text \<open>
  The class \<^verbatim>\<open>\s\<close>, on the code units below 256: tab, line feed, vertical tab, form
  feed, carriage return, space and no-break space.
\<close>

definition js_space :: "char \<Rightarrow> bool" where
  "js_space c = (c \<in> set [CHR 0x09, CHR 0x0A, CHR 0x0B, CHR 0x0C, CHR 0x0D, CHR 0x20, CHR 0xA0])"

definition not_space_at :: "char \<Rightarrow> bool" where
  "not_space_at c = (\<not> js_space c \<and> c \<noteq> CHR ''@'')"

definition emailRegex :: "rx_item list" where
  "emailRegex =
     [Many not_space_at, Once (\<lambda>c. c = CHR ''@''), Many not_space_at,
      Once (\<lambda>c. c = CHR ''.''), Many not_space_at]"

text \<open>\<^verbatim>\<open>regex.test(v)\<close> converts its argument to a string first.\<close>

definition regex_test :: "rx_item list \<Rightarrow> jsval \<Rightarrow> js_error + bool" where
  "regex_test rx v = (case to_string v of Inl e \<Rightarrow> Inl e | Inr s \<Rightarrow> Inr (rx_match rx s))"

section \<open>The outside world: environment variables, HTTP, the log\<close>

text \<open>
  The function reads \<^verbatim>\<open>process.env\<close>, calls \<^verbatim>\<open>fetch\<close> and writes to \<^verbatim>\<open>context.log\<close>.
  An outbound request is kept by its parts; its body is kept before serialisation (the
  form parameters given to \<^verbatim>\<open>URLSearchParams\<close>, the value given to \<^verbatim>\<open>JSON.stringify\<close>).
  A response offers what the code reads of it: \<^verbatim>\<open>ok\<close>, \<^verbatim>\<open>status\<close> (as rendered in a
  template literal), and the results of \<^verbatim>\<open>await response.text()\<close> and
  \<^verbatim>\<open>await response.json()\<close>, each of which may reject.
\<close>

datatype payload = FormParams "(string \<times> string) list" | JsonOf jsval

record http_request =
  rq_url :: string
  rq_verb :: string
  rq_headers :: "(string \<times> string) list"
  rq_payload :: payload

record fetch_response =
  rs_ok :: bool
  rs_status :: string
  rs_text :: "js_error + string"
  rs_json :: "js_error + jsval"

record env =
  process_env :: "string \<Rightarrow> string option"
  fetch :: "http_request \<Rightarrow> js_error + fetch_response"

text \<open>
  What a run leaves behind, in order: the lines written with \<^verbatim>\<open>context.log\<close> (each with
  its arguments), the calls of \<^verbatim>\<open>getAccessToken\<close> and \<^verbatim>\<open>sendEmail\<close> (the latter with
  its five arguments), and the requests handed to \<^verbatim>\<open>fetch\<close>.
\<close>

datatype logarg = LStr string | LVal jsval | LErr js_error

datatype event =
    Logged "logarg list"
  | Called_getAccessToken
  | Called_sendEmail jsval string string string string
  | Fetched http_request

text \<open>
  A computation either returns or throws, and has emitted events up to that point.
  \<open>and_then\<close> is sequencing (\<^verbatim>\<open>await\<close> included: the calls are awaited one after the
  other): a throw skips what follows and keeps the events emitted so far.
\<close>

type_synonym 'a run = "(js_error + 'a) \<times> event list"

definition returning :: "'a \<Rightarrow> 'a run" where
  "returning x = (Inr x, [])"

definition throw :: "js_error \<Rightarrow> 'a run" where
  "throw e = (Inl e, [])"

definition lift :: "js_error + 'a \<Rightarrow> 'a run" where
  "lift r = (r, [])"

definition emit :: "event \<Rightarrow> unit run" where
  "emit ev = (Inr (), [ev])"

definition and_then :: "'a run \<Rightarrow> ('a \<Rightarrow> 'b run) \<Rightarrow> 'b run" where
  "and_then m f =
     (case m of
        (Inl e, evs) \<Rightarrow> (Inl e, evs)
      | (Inr x, evs) \<Rightarrow> (case f x of (r, evs') \<Rightarrow> (r, evs @ evs')))"

definition context_log :: "logarg list \<Rightarrow> unit run" where
  "context_log args = emit (Logged args)"

definition js_fetch :: "env \<Rightarrow> http_request \<Rightarrow> fetch_response run" where
  "js_fetch env rq = (fetch env rq, [Fetched rq])"

text \<open>An environment variable in a template literal: an unset one renders \<^verbatim>\<open>undefined\<close>.\<close>

definition env_text :: "string option \<Rightarrow> string" where
  "env_text v = (case v of None \<Rightarrow> ''undefined'' | Some s \<Rightarrow> s)"

text \<open>\<^verbatim>\<open>process.env.X || 'default'\<close>\<close>

definition env_or :: "string option \<Rightarrow> string \<Rightarrow> string" where
  "env_or v d = (case v of None \<Rightarrow> d | Some s \<Rightarrow> if s = [] then d else s)"

section \<open>getAccessToken and sendEmail\<close>

text \<open>
  \<^verbatim>\<open>
  async function getAccessToken() {
      const tenantId = process.env.AZURE_TENANT_ID; ...
      const tokenUrl = `https://login.microsoftonline.com/${tenantId}/oauth2/v2.0/token`;
      const params = new URLSearchParams({ client_id: clientId, client_secret: clientSecret,
          scope: 'https://graph.microsoft.com/.default', grant_type: 'client_credentials' });
      const response = await fetch(tokenUrl, { method: 'POST',
          headers: { 'Content-Type': 'application/x-www-form-urlencoded' }, body: params.toString() });
      if (!response.ok) {
          const errorText = await response.text();
          throw new Error(`Failed to get access token: ${response.status} - ${errorText}`);
      }
      const data = await response.json();
      return data.access_token;
  }
  \<close>
\<close>

definition getAccessToken :: "env \<Rightarrow> jsval run" where
  "getAccessToken env =
     (let tenantId = process_env env ''AZURE_TENANT_ID'';
          clientId = process_env env ''AZURE_CLIENT_ID'';
          clientSecret = process_env env ''AZURE_CLIENT_SECRET'';
          tokenUrl = ''https://login.microsoftonline.com/'' @ env_text tenantId @ ''/oauth2/v2.0/token'';
          params = [(''client_id'', env_text clientId),
                    (''client_secret'', env_text clientSecret),
                    (''scope'', ''https://graph.microsoft.com/.default''),
                    (''grant_type'', ''client_credentials'')]
      in and_then (emit Called_getAccessToken) (\<lambda>_.
         and_then (js_fetch env
                     \<lparr>rq_url = tokenUrl, rq_verb = ''POST'',
                      rq_headers = [(''Content-Type'', ''application/x-www-form-urlencoded'')],
                      rq_payload = FormParams params\<rparr>) (\<lambda>response.
         if \<not> rs_ok response then
           and_then (lift (rs_text response)) (\<lambda>errorText.
           throw (JsError ''Error''
                    (''Failed to get access token: '' @ rs_status response @ '' - '' @ errorText)))
         else
           and_then (lift (rs_json response)) (\<lambda>data.
           lift (get_property data ''access_token'')))))"

text \<open>
  \<^verbatim>\<open>
  async function sendEmail(accessToken, fromEmail, toEmail, subject, htmlBody) {
      const graphUrl = `https://graph.microsoft.com/v1.0/users/${fromEmail}/sendMail`;
      const emailData = { message: { subject: subject,
              body: { contentType: 'HTML', content: htmlBody },
              toRecipients: [ { emailAddress: { address: toEmail } } ] },
          saveToSentItems: false };
      const response = await fetch(graphUrl, { method: 'POST',
          headers: { 'Authorization': `Bearer ${accessToken}`, 'Content-Type': 'application/json' },
          body: JSON.stringify(emailData) });
      if (!response.ok) {
          const errorText = await response.text();
          throw new Error(`Failed to send email: ${response.status} - ${errorText}`);
      }
      return true;
  }
  \<close>
  The token is whatever \<^verbatim>\<open>data.access_token\<close> was; the template literal of the
  Authorization header converts it to a string before \<^verbatim>\<open>fetch\<close> is called.
\<close>

definition sendEmail :: "env \<Rightarrow> jsval \<Rightarrow> string \<Rightarrow> string \<Rightarrow> string \<Rightarrow> string \<Rightarrow> bool run" where
  "sendEmail env accessToken fromEmail toEmail subject htmlBody =
     (let graphUrl = ''https://graph.microsoft.com/v1.0/users/'' @ fromEmail @ ''/sendMail'';
          emailData = JObj
            [(''message'', JObj
                [(''subject'', JStr subject),
                 (''body'', JObj [(''contentType'', JStr ''HTML''), (''content'', JStr htmlBody)]),
                 (''toRecipients'', JArr [JObj [(''emailAddress'', JObj [(''address'', JStr toEmail)])]])]),
             (''saveToSentItems'', JBool False)]
      in and_then (emit (Called_sendEmail accessToken fromEmail toEmail subject htmlBody)) (\<lambda>_.
         and_then (lift (to_string accessToken)) (\<lambda>bearer.
         and_then (js_fetch env
                     \<lparr>rq_url = graphUrl, rq_verb = ''POST'',
                      rq_headers = [(''Authorization'', ''Bearer '' @ bearer),
                                    (''Content-Type'', ''application/json'')],
                      rq_payload = JsonOf emailData\<rparr>) (\<lambda>response.
         if \<not> rs_ok response then
           and_then (lift (rs_text response)) (\<lambda>errorText.
           throw (JsError ''Error''
                    (''Failed to send email: '' @ rs_status response @ '' - '' @ errorText)))
         else returning True))))"

section \<open>The contact function\<close>

text \<open>
  The request as the function reads it (\<^verbatim>\<open>req.method\<close>, \<^verbatim>\<open>req.headers\<close>, \<^verbatim>\<open>req.body\<close>; a
  missing body is \<^verbatim>\<open>undefined\<close>) and the response it leaves in \<^verbatim>\<open>context.res\<close>.
\<close>

record request =
  req_method :: string
  req_headers :: "(string \<times> string) list"
  req_body :: jsval

record response =
  res_status :: nat
  res_headers :: "(string \<times> string) list"
  res_body :: "jsval option"

definition header :: "request \<Rightarrow> string \<Rightarrow> jsval" where
  "header req k = (case map_of (req_headers req) k of None \<Rightarrow> JUndefined | Some s \<Rightarrow> JStr s)"

text \<open>
  \<^verbatim>\<open>
  const allowedOrigins = [ 'https://meekertechnologies.com', 'https://www.meekertechnologies.com',
      'https://witty-hill-016919110.1.azurestaticapps.net' ];
  const origin = req.headers.origin || req.headers.Origin;
  const corsOrigin = allowedOrigins.includes(origin) ? origin : allowedOrigins[0];
  \<close>
\<close>

definition allowedOrigins :: "string list" where
  "allowedOrigins =
     [''https://meekertechnologies.com'', ''https://www.meekertechnologies.com'',
      ''https://witty-hill-016919110.1.azurestaticapps.net'']"

definition origin :: "request \<Rightarrow> jsval" where
  "origin req = js_or (header req ''origin'') (header req ''Origin'')"

definition corsOrigin :: "request \<Rightarrow> string" where
  "corsOrigin req =
     (case origin req of
        JStr s \<Rightarrow> if s \<in> set allowedOrigins then s else allowedOrigins ! 0
      | _ \<Rightarrow> allowedOrigins ! 0)"

definition corsHeaders :: "request \<Rightarrow> (string \<times> string) list" where
  "corsHeaders req =
     [(''Access-Control-Allow-Origin'', corsOrigin req),
      (''Access-Control-Allow-Methods'', ''POST, OPTIONS''),
      (''Access-Control-Allow-Headers'', ''Content-Type'')]"

text \<open>
  \<^verbatim>\<open>
  const interestsText = Array.isArray(interests) && interests.length > 0
      ? interests.join(', ') : 'Not specified';
  \<close>
\<close>

definition interests_text :: "jsval \<Rightarrow> js_error + string" where
  "interests_text interests =
     (case interests of
        JArr xs \<Rightarrow> if length xs > 0 then js_join '', '' xs else Inr ''Not specified''
      | _ \<Rightarrow> Inr ''Not specified'')"

text \<open>A log line built by a template literal: the value is converted first.\<close>

definition log_line :: "string \<Rightarrow> jsval \<Rightarrow> unit run" where
  "log_line prefix v = and_then (lift (to_string v)) (\<lambda>s. context_log [LStr (prefix @ s)])"

text \<open>\<^verbatim>\<open>.replace(/\n/g, '<br>')\<close>\<close>

definition replace_newlines :: "string \<Rightarrow> string" where
  "replace_newlines s = concat (map (\<lambda>c. if c = CHR 0x0A then ''<br>'' else [c]) s)"

text \<open>The subject and the HTML body, as the two template literals build them.\<close>

definition subject :: "string \<Rightarrow> string \<Rightarrow> string" where
  "subject safeInterests safeName =
     ''[Meeker Technologies] '' @ safeInterests @ '' - from '' @ safeName"

definition htmlBody :: "string \<Rightarrow> string \<Rightarrow> string \<Rightarrow> string \<Rightarrow> string \<Rightarrow> string" where
  \<open>htmlBody safeName safeEmail safeCompany safeInterests safeMessage =
     ''\<newline>                <h2>New Contact Form Submission</h2>'' @
     ''\<newline>                <p><strong>From:</strong> '' @
     safeName @
     '' (<a href="mailto:'' @
     safeEmail @
     ''">'' @
     safeEmail @
     ''</a>)</p>'' @
     ''\<newline>                <p><strong>Company:</strong> '' @
     safeCompany @
     ''</p>'' @
     ''\<newline>                <p><strong>Interested in:</strong> '' @
     safeInterests @
     ''</p>'' @
     ''\<newline>                <hr>'' @
     ''\<newline>                <p><strong>Message:</strong></p>'' @
     ''\<newline>                <p>'' @
     safeMessage @
     ''</p>'' @
     ''\<newline>                <hr>'' @
     ''\<newline>                <p><em>Sent from meekertechnologies.com contact form</em></p>'' @
     ''\<newline>            ''\<close>

text \<open>
  The guarded step (the inner \<^verbatim>\<open>try\<close> block): the token, the five escaped fields, the
  mail, a log line.
\<close>

definition send_notification ::
  "env \<Rightarrow> jsval \<Rightarrow> jsval \<Rightarrow> jsval \<Rightarrow> string \<Rightarrow> jsval \<Rightarrow> string \<Rightarrow> string \<Rightarrow> unit run" where
  "send_notification env name email company interestsText message senderEmail ownerEmail =
     and_then (getAccessToken env) (\<lambda>accessToken.
     and_then (lift (escapeHtml name)) (\<lambda>safeName.
     and_then (lift (escapeHtml email)) (\<lambda>safeEmail.
     and_then (lift (escapeHtml (js_or company (JStr ''Not provided'')))) (\<lambda>safeCompany.
     and_then (lift (escapeHtml (JStr interestsText))) (\<lambda>safeInterests.
     and_then (lift (escapeHtml message)) (\<lambda>escaped.
     let safeMessage = replace_newlines escaped in
     and_then (sendEmail env accessToken senderEmail ownerEmail
                 (subject safeInterests safeName)
                 (htmlBody safeName safeEmail safeCompany safeInterests safeMessage)) (\<lambda>_.
     context_log [LStr ''Email sent successfully''])))))))"

text \<open>
  The body of the outer \<^verbatim>\<open>try\<close>: the honeypot, the required fields, the email pattern,
  the log of the submission, and the guarded step, whose failure is logged and answered
  with a success all the same.
\<close>

definition handle_submission :: "env \<Rightarrow> (string \<times> string) list \<Rightarrow> jsval \<Rightarrow> response run" where
  "handle_submission env headers body =
     (let fields = js_or body (JObj []);
          name = own_property fields ''name'';
          email = own_property fields ''email'';
          company = own_property fields ''company'';
          interests = own_property fields ''interests'';
          message = own_property fields ''message'';
          honeypot = own_property fields ''honeypot''
      in
      if truthy honeypot then
        and_then (context_log [LStr ''Honeypot triggered - likely spam'']) (\<lambda>_.
        returning \<lparr>res_status = 200, res_headers = headers,
          res_body = Some (JObj [(''success'', JBool True),
            (''message'', JStr ''Thank you for your inquiry. We will be in touch within 24 hours.'')])\<rparr>)
      else if \<not> truthy name \<or> \<not> truthy email \<or> \<not> truthy message then
        returning \<lparr>res_status = 400, res_headers = headers,
          res_body = Some (JObj [(''success'', JBool False),
            (''error'', JStr ''Name, email, and message are required'')])\<rparr>
      else
        and_then (lift (regex_test emailRegex email)) (\<lambda>matches.
        if \<not> matches then
          returning \<lparr>res_status = 400, res_headers = headers,
            res_body = Some (JObj [(''success'', JBool False),
              (''error'', JStr ''Invalid email format'')])\<rparr>
        else
          and_then (lift (interests_text interests)) (\<lambda>interestsText.
          and_then (context_log [LStr ''Contact form submission:'']) (\<lambda>_.
          and_then (log_line ''  Name: '' name) (\<lambda>_.
          and_then (log_line ''  Email: '' email) (\<lambda>_.
          and_then (log_line ''  Company: '' (js_or company (JStr ''Not provided''))) (\<lambda>_.
          and_then (context_log [LStr (''  Interests: '' @ interestsText)]) (\<lambda>_.
          and_then (log_line ''  Message: '' message) (\<lambda>_.
          let senderEmail = env_or (process_env env ''SENDER_EMAIL'') ''adam@adammeeker.com'';
              ownerEmail = env_or (process_env env ''OWNER_EMAIL'') ''adam@adammeeker.com''
          in
          (case send_notification env name email company interestsText message
                  senderEmail ownerEmail of
             (Inr _, evs) \<Rightarrow>
               (Inr \<lparr>res_status = 200, res_headers = headers,
                  res_body = Some (JObj [(''success'', JBool True),
                    (''message'', JStr ''Thank you for your inquiry. We will be in touch within 24 hours.'')])\<rparr>,
                evs)
           | (Inl emailError, evs) \<Rightarrow>
               (Inr \<lparr>res_status = 200, res_headers = headers,
                  res_body = Some (JObj [(''success'', JBool True),
                    (''message'', JStr ''Thank you for your inquiry. We will be in touch within 24 hours.''),
                    (''note'', JStr ''Email delivery may be delayed.'')])\<rparr>,
                evs @ [Logged [LStr ''Email sending failed:'',
                         LStr (err_message emailError)]])))))))))))"

text \<open>
  The exported function of the full handler: the first log line, the CORS headers, the
  preflight answer, and the outer \<^verbatim>\<open>try\<close> with its \<^verbatim>\<open>catch\<close>, which logs
  \<^verbatim>\<open>error.message || error\<close> and answers 500.
\<close>

definition handler :: "env \<Rightarrow> request \<Rightarrow> response \<times> event list" where
  "handler env req =
     (let received = Logged [LStr ''Contact form submission received''] in
      if req_method req = ''OPTIONS'' then
        (\<lparr>res_status = 204, res_headers = corsHeaders req, res_body = None\<rparr>, [received])
      else
        let headers = (''Content-Type'', ''application/json'') # corsHeaders req in
        (case handle_submission env headers (req_body req) of
           (Inr res, evs) \<Rightarrow> (res, received # evs)
         | (Inl error, evs) \<Rightarrow>
             (\<lparr>res_status = 500, res_headers = headers,
               res_body = Some (JObj [(''success'', JBool False),
                 (''error'', JStr ''Unable to process your request. Please try again later.'')])\<rparr>,
              received # evs @
                [Logged [LStr ''Error processing contact form:'',
                   if err_message error \<noteq> [] then LStr (err_message error) else LErr error]])))"

section \<open>The simple handler\<close>

text \<open>
  \<^verbatim>\<open>src/api/contact/index.js\<close>: the same two validations, no honeypot, no mail and no
  \<^verbatim>\<open>try\<close>: a throw leaves the function without a response. \<open>now\<close> is what
  \<^verbatim>\<open>new Date().toISOString()\<close> returns.
\<close>

definition simple_handler :: "string \<Rightarrow> request \<Rightarrow> response run" where
  "simple_handler now req =
     and_then (context_log [LStr ''Contact form submission received'']) (\<lambda>_.
     let fields = js_or (req_body req) (JObj []);
         name = own_property fields ''name'';
         email = own_property fields ''email'';
         company = own_property fields ''company'';
         interests = own_property fields ''interests'';
         message = own_property fields ''message''
     in
     if \<not> truthy name \<or> \<not> truthy email \<or> \<not> truthy message then
       returning \<lparr>res_status = 400, res_headers = [],
         res_body = Some (JObj [(''error'', JStr ''Name, email, and message are required'')])\<rparr>
     else
       and_then (lift (regex_test emailRegex email)) (\<lambda>matches.
       if \<not> matches then
         returning \<lparr>res_status = 400, res_headers = [],
           res_body = Some (JObj [(''error'', JStr ''Invalid email format'')])\<rparr>
       else
         and_then (context_log [LStr ''Contact form data:'',
                     LVal (JObj [(''name'', name), (''email'', email),
                                 (''company'', js_or company (JStr ''Not provided'')),
                                 (''interests'', js_or interests (JArr [])),
                                 (''message'', message), (''timestamp'', JStr now)])]) (\<lambda>_.
         returning \<lparr>res_status = 200, res_headers = [(''Content-Type'', ''application/json'')],
           res_body = Some (JObj [(''success'', JBool True),
             (''message'', JStr ''Thank you for your inquiry. We will be in touch within 24 hours.'')])\<rparr>)))"

section \<open>Reading a request and a run\<close>

text \<open>
  The field \<open>k\<close> of a submission, as the destructuring
  \<^verbatim>\<open>const { name, email, company, interests, message, honeypot } = req.body || {};\<close>
  reads it.
\<close>

definition field :: "request \<Rightarrow> string \<Rightarrow> jsval" where
  "field req k = own_property (js_or (req_body req) (JObj [])) k"

text \<open>The events of a run by kind, and the requests it handed to \<^verbatim>\<open>fetch\<close>, in order.\<close>

fun is_log :: "event \<Rightarrow> bool" where
  "is_log (Logged args) = True"
| "is_log ev = False"

fun is_send_call :: "event \<Rightarrow> bool" where
  "is_send_call (Called_sendEmail tok a b c d) = True"
| "is_send_call ev = False"

definition is_token_call :: "event \<Rightarrow> bool" where
  "is_token_call ev = (ev = Called_getAccessToken)"

definition outbound :: "event list \<Rightarrow> http_request list" where
  "outbound evs = concat (map (\<lambda>ev. case ev of Fetched r \<Rightarrow> [r] | _ \<Rightarrow> []) evs)"

text \<open>The two addresses the function calls, as its template literals build them.\<close>

definition tokenUrl :: "env \<Rightarrow> string" where
  "tokenUrl env = ''https://login.microsoftonline.com/'' @
     env_text (process_env env ''AZURE_TENANT_ID'') @ ''/oauth2/v2.0/token''"

definition graphUrl :: "string \<Rightarrow> string" where
  "graphUrl fromEmail = ''https://graph.microsoft.com/v1.0/users/'' @ fromEmail @ ''/sendMail''"

text \<open>
  The two requests the function hands to \<^verbatim>\<open>fetch\<close>, as \<^verbatim>\<open>getAccessToken\<close> and
  \<^verbatim>\<open>sendEmail\<close> build them (\<open>bearer\<close> is the token as a string).
\<close>

definition token_request :: "env \<Rightarrow> http_request" where
  "token_request env =
     \<lparr>rq_url = tokenUrl env, rq_verb = ''POST'',
      rq_headers = [(''Content-Type'', ''application/x-www-form-urlencoded'')],
      rq_payload = FormParams
        [(''client_id'', env_text (process_env env ''AZURE_CLIENT_ID'')),
         (''client_secret'', env_text (process_env env ''AZURE_CLIENT_SECRET'')),
         (''scope'', ''https://graph.microsoft.com/.default''),
         (''grant_type'', ''client_credentials'')]\<rparr>"

definition mail_request :: "string \<Rightarrow> string \<Rightarrow> string \<Rightarrow> string \<Rightarrow> string \<Rightarrow> http_request" where
  "mail_request bearer fromEmail toEmail sj hb =
     \<lparr>rq_url = graphUrl fromEmail, rq_verb = ''POST'',
      rq_headers = [(''Authorization'', ''Bearer '' @ bearer), (''Content-Type'', ''application/json'')],
      rq_payload = JsonOf (JObj
        [(''message'', JObj
            [(''subject'', JStr sj),
             (''body'', JObj [(''contentType'', JStr ''HTML''), (''content'', JStr hb)]),
             (''toRecipients'', JArr [JObj [(''emailAddress'', JObj [(''address'', JStr toEmail)])]])]),
         (''saveToSentItems'', JBool False)])\<rparr>"

text \<open>The six lines the full handler logs for a submission that passed validation.\<close>

definition submission_log :: "string \<Rightarrow> string \<Rightarrow> string \<Rightarrow> string \<Rightarrow> string \<Rightarrow> event list" where
  "submission_log n e c it m =
     [Logged [LStr ''Contact form submission:''],
      Logged [LStr (''  Name: '' @ n)],
      Logged [LStr (''  Email: '' @ e)],
      Logged [LStr (''  Company: '' @ c)],
      Logged [LStr (''  Interests: '' @ it)],
      Logged [LStr (''  Message: '' @ m)]]"

text \<open>
  A conversion that returns rather than throws, and the submissions that get as far as
  the guarded step: they pass the honeypot, the required fields and the pattern, and
  every conversion of the log lines returns.
\<close>

definition converts :: "js_error + 'a \<Rightarrow> bool" where
  "converts r = (case r of Inl e \<Rightarrow> False | Inr x \<Rightarrow> True)"

definition reaches_send :: "jsval \<Rightarrow> bool" where
  "reaches_send body =
     (let fields = js_or body (JObj []) in
      \<not> truthy (own_property fields ''honeypot'') \<and>
      truthy (own_property fields ''name'') \<and>
      truthy (own_property fields ''email'') \<and>
      truthy (own_property fields ''message'') \<and>
      regex_test emailRegex (own_property fields ''email'') = Inr True \<and>
      converts (interests_text (own_property fields ''interests'')) \<and>
      converts (to_string (own_property fields ''name'')) \<and>
      converts (to_string (js_or (own_property fields ''company'') (JStr ''Not provided''))) \<and>
      converts (to_string (own_property fields ''message'')))"

section \<open>Sample inputs\<close>

text \<open>
  A POST request with a given body and no headers; an environment in which every
  \<^verbatim>\<open>fetch\<close> rejects; and one in which every \<^verbatim>\<open>fetch\<close> answers 200 with a token.
\<close>

definition post :: "jsval \<Rightarrow> request" where
  "post body = \<lparr>req_method = ''POST'', req_headers = [], req_body = body\<rparr>"

definition unreachable :: env where
  "unreachable = \<lparr>process_env = (\<lambda>k. None),
                   fetch = (\<lambda>rq. Inl (JsError ''TypeError'' ''fetch failed''))\<rparr>"

definition reachable :: env where
  "reachable = \<lparr>process_env = (\<lambda>k. None),
                 fetch = (\<lambda>rq. Inr \<lparr>rs_ok = True, rs_status = ''200'', rs_text = Inr [],
                                      rs_json = Inr (JObj [(''access_token'', JStr ''t0k'')])\<rparr>)\<rparr>"

text \<open>
  A submission with the three required fields; and an environment in which the token
  endpoint answers but the mail endpoint refuses with status 403.
\<close>

definition valid_body :: jsval where
  "valid_body = JObj [(''name'', JStr ''Ann <b>''), (''email'', JStr ''ann@example.org''),
                      (''message'', JStr ''hi'')]"

definition mail_refused :: env where
  "mail_refused = \<lparr>process_env = (\<lambda>k. None),
     fetch = (\<lambda>rq. if rq_verb rq = ''POST'' \<and> rq_url rq = ''https://login.microsoftonline.com/undefined/oauth2/v2.0/token''
                     then Inr \<lparr>rs_ok = True, rs_status = ''200'', rs_text = Inr [],
                               rs_json = Inr (JObj [(''access_token'', JStr ''t0k'')])\<rparr>
                     else Inr \<lparr>rs_ok = False, rs_status = ''403'', rs_text = Inr ''Forbidden'',
                               rs_json = Inl (JsError ''SyntaxError'' ''Unexpected token'')\<rparr>)\<rparr>"

text \<open>
  A submission whose name is the JSON object \<^verbatim>\<open>{"toString": 1}\<close>: truthy, and not
  convertible to a string.
\<close>

definition odd_name_body :: jsval where
  "odd_name_body = JObj [(''name'', JObj [(''toString'', JNum ''1'')]),
                         (''email'', JStr ''ann@example.org''), (''message'', JStr ''hi'')]"

text \<open>
  A submission whose email is the JSON object \<^verbatim>\<open>{"toString": 1}\<close>; and one with an
  empty name whose message is that object.
\<close>

definition odd_email_body :: jsval where
  "odd_email_body = JObj [(''name'', JStr ''Ann''), (''email'', JObj [(''toString'', JNum ''1'')]),
                          (''message'', JStr ''hi'')]"

definition odd_message_body :: jsval where
  "odd_message_body = JObj [(''name'', JStr []), (''email'', JStr ''ann@example.org''),
                            (''message'', JObj [(''toString'', JNum ''1'')])]"

section \<open>Properties of escapeHtml and of the email pattern\<close>

lemma replace_special_entities:
  "replace_special s =
     concat (map (\<lambda>c. if c = CHR ''&'' then ''&amp;''
                       else if c = CHR ''<'' then ''&lt;''
                       else if c = CHR ''>'' then ''&gt;''
                       else if c = CHR 0x22 then ''&quot;''
                       else if c = CHR 0x27 then ''&#39;''
                       else [c]) s)"
  unfolding replace_special_def
  by (rule arg_cong [where f = concat], rule map_cong [OF refl])
     (simp add: html_special_def htmlEntities_def)

lemma replace_special_clean:
  "CHR ''<'' \<notin> set (replace_special s) \<and> CHR ''>'' \<notin> set (replace_special s) \<and>
   CHR 0x22 \<notin> set (replace_special s) \<and> CHR 0x27 \<notin> set (replace_special s)"
  by (induction s) (auto simp: replace_special_def html_special_def htmlEntities_def)

lemma escapeHtml_JStr: "escapeHtml (JStr s) = Inr (replace_special s)"
  by (simp add: escapeHtml_def replace_special_def)

lemma rx_match_Many:
  "rx_match (Many p # r) s \<longleftrightarrow>
     (\<exists>u t. s = u @ t \<and> u \<noteq> [] \<and> (\<forall>c\<in>set u. p c) \<and> rx_match r t)"
proof (induction s)
  case Nil
  then show ?case by simp
next
  case (Cons c s)
  show ?case
  proof
    assume "rx_match (Many p # r) (c # s)"
    then have pc: "p c" and alt: "rx_match r s \<or> rx_match (Many p # r) s" by simp_all
    from alt show "\<exists>u t. c # s = u @ t \<and> u \<noteq> [] \<and> (\<forall>c\<in>set u. p c) \<and> rx_match r t"
    proof
      assume "rx_match r s"
      with pc have "c # s = [c] @ s \<and> [c] \<noteq> [] \<and> (\<forall>x\<in>set [c]. p x) \<and> rx_match r s" by simp
      then show ?thesis by blast
    next
      assume "rx_match (Many p # r) s"
      with Cons.IH obtain u t where "s = u @ t" "u \<noteq> []" "\<forall>x\<in>set u. p x" "rx_match r t" by blast
      with pc have "c # s = (c # u) @ t \<and> c # u \<noteq> [] \<and> (\<forall>x\<in>set (c # u). p x) \<and> rx_match r t" by simp
      then show ?thesis by blast
    qed
  next
    assume "\<exists>u t. c # s = u @ t \<and> u \<noteq> [] \<and> (\<forall>c\<in>set u. p c) \<and> rx_match r t"
    then obtain u t where ut: "c # s = u @ t" "u \<noteq> []" "\<forall>x\<in>set u. p x" "rx_match r t" by blast
    then obtain u' where u: "u = c # u'" by (cases u) auto
    with ut have s: "s = u' @ t" and pc: "p c" and pu': "\<forall>x\<in>set u'. p x" by simp_all
    show "rx_match (Many p # r) (c # s)"
    proof (cases "u' = []")
      case True
      with s ut pc show ?thesis by simp
    next
      case False
      with s pu' ut have "rx_match (Many p # r) s" using Cons.IH by blast
      with pc show ?thesis by simp
    qed
  qed
qed

lemma rx_match_Once:
  "rx_match (Once p # r) s \<longleftrightarrow> (\<exists>c t. s = c # t \<and> p c \<and> rx_match r t)"
  by (cases s) auto

lemma emailRegex_only_if: assumes m: "rx_match emailRegex s" shows "(\<exists>a b c. s = a @ ''@'' @ b @ ''.'' @ c \<and> a \<noteq> [] \<and> b \<noteq> [] \<and> c \<noteq> [] \<and>
        (\<forall>x\<in>set (a @ b @ c). \<not> js_space x \<and> x \<noteq> CHR ''@''))"
proof -
  define r4 where "r4 = [Many not_space_at]"
  define r3 where "r3 = Once (\<lambda>c. c = CHR ''.'') # r4"
  define r2 where "r2 = Many not_space_at # r3"
  define r1 where "r1 = Once (\<lambda>c. c = CHR ''@'') # r2"
  from m have "rx_match (Many not_space_at # r1) s"
    by (simp add: emailRegex_def r1_def r2_def r3_def r4_def)
  then obtain a t1 where a: "s = a @ t1" "a \<noteq> []" "\<forall>x\<in>set a. not_space_at x" and m1: "rx_match r1 t1"
    unfolding rx_match_Many by blast
  from m1 obtain t2 where t1: "t1 = CHR ''@'' # t2" and m2: "rx_match r2 t2"
    unfolding r1_def rx_match_Once by blast
  from m2 obtain b t3 where b: "t2 = b @ t3" "b \<noteq> []" "\<forall>x\<in>set b. not_space_at x" and m3: "rx_match r3 t3"
    unfolding r2_def rx_match_Many by blast
  from m3 obtain t4 where t3: "t3 = CHR ''.'' # t4" and m4: "rx_match r4 t4"
    unfolding r3_def rx_match_Once by blast
  from m4 obtain c t5 where c: "t4 = c @ t5" "c \<noteq> []" "\<forall>x\<in>set c. not_space_at x" and m5: "rx_match [] t5"
    unfolding r4_def rx_match_Many by blast
  from m5 have "t5 = []" by simp
  with a t1 b t3 c have "s = a @ ''@'' @ b @ ''.'' @ c" by simp
  moreover from a b c have "\<forall>x\<in>set (a @ b @ c). \<not> js_space x \<and> x \<noteq> CHR ''@''"
    by (auto simp: not_space_at_def)
  ultimately show ?thesis
    using a(2) b(2) c(2) by blast
qed

lemma emailRegex_if:
  assumes s: "s = a @ ''@'' @ b @ ''.'' @ c"
    and ne: "a \<noteq> []" "b \<noteq> []" "c \<noteq> []"
    and cls: "\<forall>x\<in>set (a @ b @ c). \<not> js_space x \<and> x \<noteq> CHR ''@''"
  shows "rx_match emailRegex s"
proof -
  from cls have ca: "\<forall>x\<in>set a. not_space_at x" and cb: "\<forall>x\<in>set b. not_space_at x"
    and cc: "\<forall>x\<in>set c. not_space_at x"
    by (simp_all add: not_space_at_def)
  have "rx_match [] []" by simp
  with ne(3) cc have m4: "rx_match [Many not_space_at] c"
    using rx_match_Many [of not_space_at "[]" c] by fastforce
  then have m3: "rx_match [Once (\<lambda>c. c = CHR ''.''), Many not_space_at] (CHR ''.'' # c)"
    by simp
  with ne(2) cb
  have m2: "rx_match [Many not_space_at, Once (\<lambda>c. c = CHR ''.''), Many not_space_at] (b @ CHR ''.'' # c)"
    using rx_match_Many [of not_space_at "[Once (\<lambda>c. c = CHR ''.''), Many not_space_at]" "b @ CHR ''.'' # c"]
    by blast
  then have m1: "rx_match [Once (\<lambda>c. c = CHR ''@''), Many not_space_at, Once (\<lambda>c. c = CHR ''.''),
              Many not_space_at] (CHR ''@'' # b @ CHR ''.'' # c)"
    by simp
  with ne(1) ca
  have "rx_match [Many not_space_at, Once (\<lambda>c. c = CHR ''@''), Many not_space_at, Once (\<lambda>c. c = CHR ''.''),
              Many not_space_at] (a @ CHR ''@'' # b @ CHR ''.'' # c)"
    using rx_match_Many [of not_space_at "[Once (\<lambda>c. c = CHR ''@''), Many not_space_at, Once (\<lambda>c. c = CHR ''.''),
              Many not_space_at]" "a @ CHR ''@'' # b @ CHR ''.'' # c"]
    by blast
  then show ?thesis by (simp add: emailRegex_def s)
qed

lemma emailRegex_shape:
  "rx_match emailRegex s \<longleftrightarrow>
     (\<exists>a b c. s = a @ ''@'' @ b @ ''.'' @ c \<and> a \<noteq> [] \<and> b \<noteq> [] \<and> c \<noteq> [] \<and>
        (\<forall>x\<in>set (a @ b @ c). \<not> js_space x \<and> x \<noteq> CHR ''@''))"
proof
  assume "rx_match emailRegex s"
  then show "\<exists>a b c. s = a @ ''@'' @ b @ ''.'' @ c \<and> a \<noteq> [] \<and> b \<noteq> [] \<and> c \<noteq> [] \<and>
        (\<forall>x\<in>set (a @ b @ c). \<not> js_space x \<and> x \<noteq> CHR ''@'')"
    by (rule emailRegex_only_if)
next
  assume "\<exists>a b c. s = a @ ''@'' @ b @ ''.'' @ c \<and> a \<noteq> [] \<and> b \<noteq> [] \<and> c \<noteq> [] \<and>
        (\<forall>x\<in>set (a @ b @ c). \<not> js_space x \<and> x \<noteq> CHR ''@'')"
  then obtain a b c where "s = a @ ''@'' @ b @ ''.'' @ c" "a \<noteq> []" "b \<noteq> []" "c \<noteq> []"
        "\<forall>x\<in>set (a @ b @ c). \<not> js_space x \<and> x \<noteq> CHR ''@''"
    by (elim exE conjE)
  then show "rx_match emailRegex s" by (rule emailRegex_if)
qed

section \<open>The event calculus and the branches of the handler\<close>

subsection \<open>Sequencing\<close>

lemma and_then_Inl [simp]: "and_then (Inl e, evs) f = (Inl e, evs)"
  by (simp add: and_then_def)

lemma and_then_Inr [simp]: "and_then (Inr x, evs) f = (fst (f x), evs @ snd (f x))"
  by (simp add: and_then_def split: prod.splits)

lemma and_then_lift_Inl [simp]: "and_then (lift (Inl e)) f = (Inl e, [])"
  by (simp add: lift_def)

lemma and_then_lift_Inr [simp]: "and_then (lift (Inr x)) f = f x"
  by (simp add: lift_def)

lemma and_then_context_log [simp]:
  "and_then (context_log args) f = (fst (f ()), Logged args # snd (f ()))"
  by (simp add: context_log_def emit_def)

lemma and_then_emit [simp]: "and_then (emit ev) f = (fst (f ()), ev # snd (f ()))"
  by (simp add: emit_def)

lemma fst_returning [simp]: "fst (returning x) = Inr x"
  and snd_returning [simp]: "snd (returning x) = []"
  by (simp_all add: returning_def)

lemma log_line_Inr [simp]:
  "to_string v = Inr s \<Longrightarrow> and_then (log_line prefix v) f = (fst (f ()), Logged [LStr (prefix @ s)] # snd (f ()))"
  by (simp add: log_line_def)

lemma log_line_Inl [simp]:
  "to_string v = Inl e \<Longrightarrow> and_then (log_line prefix v) f = (Inl e, [])"
  by (simp add: log_line_def and_then_def lift_def)

subsection \<open>The branches that answer before the guarded step\<close>

lemma hs_honeypot:
  "truthy (own_property (js_or body (JObj [])) ''honeypot'') \<Longrightarrow>
   handle_submission env h body =
     (Inr \<lparr>res_status = 200, res_headers = h,
           res_body = Some (JObj [(''success'', JBool True),
             (''message'', JStr ''Thank you for your inquiry. We will be in touch within 24 hours.'')])\<rparr>,
      [Logged [LStr ''Honeypot triggered - likely spam'']])"
  by (simp add: handle_submission_def Let_def)

lemma hs_missing:
  "\<not> truthy (own_property (js_or body (JObj [])) ''honeypot'') \<Longrightarrow>
   \<not> truthy (own_property (js_or body (JObj [])) ''name'') \<or>
   \<not> truthy (own_property (js_or body (JObj [])) ''email'') \<or>
   \<not> truthy (own_property (js_or body (JObj [])) ''message'') \<Longrightarrow>
   handle_submission env h body =
     (Inr \<lparr>res_status = 400, res_headers = h,
           res_body = Some (JObj [(''success'', JBool False),
             (''error'', JStr ''Name, email, and message are required'')])\<rparr>, [])"
  by (simp add: handle_submission_def Let_def returning_def)

lemma hs_regex_throws:
  "\<not> truthy (own_property (js_or body (JObj [])) ''honeypot'') \<Longrightarrow>
   truthy (own_property (js_or body (JObj [])) ''name'') \<Longrightarrow>
   truthy (own_property (js_or body (JObj [])) ''email'') \<Longrightarrow>
   truthy (own_property (js_or body (JObj [])) ''message'') \<Longrightarrow>
   regex_test emailRegex (own_property (js_or body (JObj [])) ''email'') = Inl e \<Longrightarrow>
   handle_submission env h body = (Inl e, [])"
  by (simp add: handle_submission_def Let_def)

lemma hs_invalid:
  "\<not> truthy (own_property (js_or body (JObj [])) ''honeypot'') \<Longrightarrow>
   truthy (own_property (js_or body (JObj [])) ''name'') \<Longrightarrow>
   truthy (own_property (js_or body (JObj [])) ''email'') \<Longrightarrow>
   truthy (own_property (js_or body (JObj [])) ''message'') \<Longrightarrow>
   regex_test emailRegex (own_property (js_or body (JObj [])) ''email'') = Inr False \<Longrightarrow>
   handle_submission env h body =
     (Inr \<lparr>res_status = 400, res_headers = h,
           res_body = Some (JObj [(''success'', JBool False),
             (''error'', JStr ''Invalid email format'')])\<rparr>, [])"
  by (simp add: handle_submission_def Let_def returning_def)

subsection \<open>Conversions and the events of the two calls\<close>

lemma to_string_error:
  "to_string v = Inl e \<Longrightarrow> e = cannot_convert"
  "js_join sep xs = Inl e \<Longrightarrow> e = cannot_convert"
  by (induction v and sep xs arbitrary: e and e rule: to_string_js_join.induct)
     (auto split: if_splits sum.splits)

lemma and_then_js_fetch:
  "and_then (js_fetch env rq) f =
     (case fetch env rq of
        Inl e \<Rightarrow> (Inl e, [Fetched rq])
      | Inr r \<Rightarrow> (fst (f r), Fetched rq # snd (f r)))"
  by (simp add: js_fetch_def split: sum.splits)

lemma snd_lift_throw [simp]: "snd (and_then (lift r) (\<lambda>x. throw (g x))) = []"
  by (cases r) (simp_all add: throw_def)

lemma snd_lift_lift [simp]: "snd (and_then (lift r) (\<lambda>x. lift (g x))) = []"
  by (cases r) (simp_all add: lift_def)

lemma snd_getAccessToken:
  "\<exists>r. snd (getAccessToken env) = [Called_getAccessToken, Fetched r] \<and> rq_url r = tokenUrl env"
  by (simp add: getAccessToken_def Let_def and_then_js_fetch tokenUrl_def split: sum.splits)

lemma snd_sendEmail:
  "\<exists>rs. snd (sendEmail env tok f t s b) = Called_sendEmail tok f t s b # map Fetched rs \<and>
        map rq_url rs = (case to_string tok of Inl _ \<Rightarrow> [] | Inr _ \<Rightarrow> [graphUrl f])"
proof (cases "to_string tok")
  case (Inl e)
  then have "snd (sendEmail env tok f t s b) = Called_sendEmail tok f t s b # map Fetched []"
    by (simp add: sendEmail_def Let_def)
  with Inl show ?thesis by (intro exI [of _ "[]"]) simp
next
  case (Inr bearer)
  then have "\<exists>r. snd (sendEmail env tok f t s b) = Called_sendEmail tok f t s b # map Fetched [r] \<and>
      rq_url r = graphUrl f"
    by (simp add: sendEmail_def Let_def and_then_js_fetch graphUrl_def returning_def split: sum.splits)
  then obtain r where "snd (sendEmail env tok f t s b) = Called_sendEmail tok f t s b # map Fetched [r]"
    "rq_url r = graphUrl f" by blast
  with Inr show ?thesis by (intro exI [of _ "[r]"]) simp
qed

subsection \<open>The guarded step\<close>

lemma fst_context_log [simp]: "fst (context_log args) = Inr ()"
  and snd_context_log [simp]: "snd (context_log args) = [Logged args]"
  by (simp_all add: context_log_def emit_def)

lemma truthy_default [simp]: "truthy (js_or v (JStr ''Not provided''))"
  by (simp add: js_or_def)

lemma escapeHtml_truthy: "truthy v \<Longrightarrow> to_string v = Inr s \<Longrightarrow> escapeHtml v = Inr (replace_special s)"
  by (simp add: escapeHtml_def)

lemma send_notification_eq:
  assumes "truthy name" "to_string name = Inr n" "truthy email" "to_string email = Inr e"
    "to_string (js_or company (JStr ''Not provided'')) = Inr c"
    "truthy message" "to_string message = Inr m"
  shows "send_notification env name email company it message sender owner =
    (case getAccessToken env of
       (Inl err, evs) \<Rightarrow> (Inl err, evs)
     | (Inr tok, evs) \<Rightarrow>
       (case sendEmail env tok sender owner
               (subject (replace_special it) (replace_special n))
               (htmlBody (replace_special n) (replace_special e) (replace_special c)
                  (replace_special it) (replace_newlines (replace_special m))) of
          (Inl err, evs') \<Rightarrow> (Inl err, evs @ evs')
        | (Inr _, evs') \<Rightarrow> (Inr (), evs @ evs' @ [Logged [LStr ''Email sent successfully'']])))"
proof -
  obtain r evs where g: "getAccessToken env = (r, evs)" by (cases "getAccessToken env")
  show ?thesis
  proof (cases r)
    case (Inl err)
    with g show ?thesis by (simp add: send_notification_def)
  next
    case (Inr tok)
    obtain r' evs' where s: "sendEmail env tok sender owner
               (subject (replace_special it) (replace_special n))
               (htmlBody (replace_special n) (replace_special e) (replace_special c)
                  (replace_special it) (replace_newlines (replace_special m))) = (r', evs')"
      by (cases "sendEmail env tok sender owner
               (subject (replace_special it) (replace_special n))
               (htmlBody (replace_special n) (replace_special e) (replace_special c)
                  (replace_special it) (replace_newlines (replace_special m)))")
    from g Inr s assms show ?thesis
      by (cases r') (simp_all add: send_notification_def escapeHtml_truthy escapeHtml_JStr Let_def)
  qed
qed

lemma hs_reaches_send:
  assumes "\<not> truthy (own_property (js_or body (JObj [])) ''honeypot'')"
    and "truthy (own_property (js_or body (JObj [])) ''name'')"
    and "truthy (own_property (js_or body (JObj [])) ''email'')"
    and "truthy (own_property (js_or body (JObj [])) ''message'')"
    and "regex_test emailRegex (own_property (js_or body (JObj [])) ''email'') = Inr True"
    and "interests_text (own_property (js_or body (JObj [])) ''interests'') = Inr it"
    and "to_string (own_property (js_or body (JObj [])) ''name'') = Inr n"
    and "to_string (own_property (js_or body (JObj [])) ''email'') = Inr e"
    and "to_string (js_or (own_property (js_or body (JObj [])) ''company'') (JStr ''Not provided'')) = Inr c"
    and "to_string (own_property (js_or body (JObj [])) ''message'') = Inr m"
  shows "handle_submission env h body =
     (case send_notification env
             (own_property (js_or body (JObj [])) ''name'')
             (own_property (js_or body (JObj [])) ''email'')
             (own_property (js_or body (JObj [])) ''company'') it
             (own_property (js_or body (JObj [])) ''message'')
             (env_or (process_env env ''SENDER_EMAIL'') ''adam@adammeeker.com'')
             (env_or (process_env env ''OWNER_EMAIL'') ''adam@adammeeker.com'') of
        (Inr _, evs) \<Rightarrow>
          (Inr \<lparr>res_status = 200, res_headers = h,
             res_body = Some (JObj [(''success'', JBool True),
               (''message'', JStr ''Thank you for your inquiry. We will be in touch within 24 hours.'')])\<rparr>,
           submission_log n e c it m @ evs)
      | (Inl emailError, evs) \<Rightarrow>
          (Inr \<lparr>res_status = 200, res_headers = h,
             res_body = Some (JObj [(''success'', JBool True),
               (''message'', JStr ''Thank you for your inquiry. We will be in touch within 24 hours.''),
               (''note'', JStr ''Email delivery may be delayed.'')])\<rparr>,
           submission_log n e c it m @ evs @
             [Logged [LStr ''Email sending failed:'', LStr (err_message emailError)]]))"
  using assms
  by (simp add: handle_submission_def Let_def submission_log_def split: prod.splits sum.splits)

subsection \<open>Submissions that do not reach the guarded step\<close>

lemma converts_simps [simp]: "converts (Inr x)" "\<not> converts (Inl e)"
  by (simp_all add: converts_def)

lemma converts_iff: "converts r \<longleftrightarrow> (\<exists>x. r = Inr x)"
  by (cases r) (simp_all add: converts_def)

lemma not_converts_iff: "\<not> converts r \<longleftrightarrow> (\<exists>e. r = Inl e)"
  by (cases r) (simp_all add: converts_def)

lemma regex_test_Inr: "regex_test rx v = Inr b \<Longrightarrow> \<exists>s. to_string v = Inr s \<and> b = rx_match rx s"
  by (auto simp: regex_test_def split: sum.splits)

lemma interests_text_error: "interests_text v = Inl e \<Longrightarrow> e = cannot_convert"
  by (auto simp: interests_text_def split: jsval.splits if_splits dest: to_string_error(2))

lemma hs_interests_throw:
  assumes "\<not> truthy (own_property (js_or body (JObj [])) ''honeypot'')"
    and "truthy (own_property (js_or body (JObj [])) ''name'')"
    and "truthy (own_property (js_or body (JObj [])) ''email'')"
    and "truthy (own_property (js_or body (JObj [])) ''message'')"
    and "regex_test emailRegex (own_property (js_or body (JObj [])) ''email'') = Inr True"
    and "interests_text (own_property (js_or body (JObj [])) ''interests'') = Inl x"
  shows "handle_submission env h body = (Inl x, [])"
  using assms by (simp add: handle_submission_def Let_def)

lemma hs_log_throw:
  assumes "\<not> truthy (own_property (js_or body (JObj [])) ''honeypot'')"
    and "truthy (own_property (js_or body (JObj [])) ''name'')"
    and "truthy (own_property (js_or body (JObj [])) ''email'')"
    and "truthy (own_property (js_or body (JObj [])) ''message'')"
    and "regex_test emailRegex (own_property (js_or body (JObj [])) ''email'') = Inr True"
    and "interests_text (own_property (js_or body (JObj [])) ''interests'') = Inr it"
    and "to_string (own_property (js_or body (JObj [])) ''name'') = Inl x \<or>
         to_string (js_or (own_property (js_or body (JObj [])) ''company'') (JStr ''Not provided'')) = Inl x \<or>
         to_string (own_property (js_or body (JObj [])) ''message'') = Inl x"
  shows "fst (handle_submission env h body) = Inl cannot_convert \<and>
         (\<forall>ev\<in>set (snd (handle_submission env h body)). is_log ev)"
proof -
  from assms(5) obtain e where e: "to_string (own_property (js_or body (JObj [])) ''email'') = Inr e"
    by (auto dest: regex_test_Inr)
  show ?thesis
  proof (cases "to_string (own_property (js_or body (JObj [])) ''name'')")
    case (Inl a)
    with assms(1-6) show ?thesis
      by (auto simp: handle_submission_def Let_def dest: to_string_error(1))
  next
    case n: (Inr n)
    show ?thesis
    proof (cases "to_string (js_or (own_property (js_or body (JObj [])) ''company'') (JStr ''Not provided''))")
      case (Inl a)
      with assms(1-6) n e show ?thesis
        by (auto simp: handle_submission_def Let_def dest: to_string_error(1))
    next
      case c: (Inr c)
      with n assms(7) have "to_string (own_property (js_or body (JObj [])) ''message'') = Inl x" by simp
      with assms(1-6) n e c show ?thesis
        by (auto simp: handle_submission_def Let_def dest: to_string_error(1))
    qed
  qed
qed

lemma hs_not_reached:
  assumes "\<not> reaches_send body"
  shows "(\<forall>ev\<in>set (snd (handle_submission env h body)). is_log ev) \<and>
         (case fst (handle_submission env h body) of
            Inl e \<Rightarrow> e = cannot_convert
          | Inr res \<Rightarrow> res_headers res = h \<and> (res_status res = 200 \<or> res_status res = 400))"
proof (cases "truthy (own_property (js_or body (JObj [])) ''honeypot'')")
  case True
  then show ?thesis by (simp add: hs_honeypot)
next
  case hp: False
  show ?thesis
  proof (cases "truthy (own_property (js_or body (JObj [])) ''name'') \<and>
                truthy (own_property (js_or body (JObj [])) ''email'') \<and>
                truthy (own_property (js_or body (JObj [])) ''message'')")
    case False
    with hp show ?thesis by (simp add: hs_missing)
  next
    case present: True
    show ?thesis
    proof (cases "regex_test emailRegex (own_property (js_or body (JObj [])) ''email'')")
      case (Inl x)
      with hp present have "handle_submission env h body = (Inl x, [])" by (simp add: hs_regex_throws)
      moreover from Inl have "x = cannot_convert"
        by (auto simp: regex_test_def split: sum.splits dest: to_string_error(1))
      ultimately show ?thesis by simp
    next
      case (Inr b)
      show ?thesis
      proof (cases b)
        case False
        with Inr hp present show ?thesis by (simp add: hs_invalid)
      next
        case True
        with Inr have rx: "regex_test emailRegex (own_property (js_or body (JObj [])) ''email'') = Inr True"
          by simp
        show ?thesis
        proof (cases "interests_text (own_property (js_or body (JObj [])) ''interests'')")
          case (Inl x)
          with hp present rx have "handle_submission env h body = (Inl x, [])"
            by (simp add: hs_interests_throw)
          moreover from Inl have "x = cannot_convert" by (rule interests_text_error)
          ultimately show ?thesis by simp
        next
          case it: (Inr it)
          with assms hp present rx
          have "\<not> converts (to_string (own_property (js_or body (JObj [])) ''name'')) \<or>
             \<not> converts (to_string (js_or (own_property (js_or body (JObj [])) ''company'') (JStr ''Not provided''))) \<or>
             \<not> converts (to_string (own_property (js_or body (JObj [])) ''message''))"
            by (auto simp: reaches_send_def Let_def)
          then have "\<exists>x. to_string (own_property (js_or body (JObj [])) ''name'') = Inl x \<or>
             to_string (js_or (own_property (js_or body (JObj [])) ''company'') (JStr ''Not provided'')) = Inl x \<or>
             to_string (own_property (js_or body (JObj [])) ''message'') = Inl x"
            unfolding not_converts_iff by blast
          then obtain x where "to_string (own_property (js_or body (JObj [])) ''name'') = Inl x \<or>
             to_string (js_or (own_property (js_or body (JObj [])) ''company'') (JStr ''Not provided'')) = Inl x \<or>
             to_string (own_property (js_or body (JObj [])) ''message'') = Inl x" ..
          with hp present rx it
          have "fst (handle_submission env h body) = Inl cannot_convert \<and>
                (\<forall>ev\<in>set (snd (handle_submission env h body)). is_log ev)"
            using hs_log_throw [of body it x env h] by simp
          then show ?thesis by simp
        qed
      qed
    qed
  qed
qed

subsection \<open>The exported function\<close>

lemma handler_OPTIONS:
  "req_method req = ''OPTIONS'' \<Longrightarrow>
   handler env req =
     (\<lparr>res_status = 204, res_headers = corsHeaders req, res_body = None\<rparr>,
      [Logged [LStr ''Contact form submission received'']])"
  by (simp add: handler_def)

lemma handler_returns:
  "req_method req \<noteq> ''OPTIONS'' \<Longrightarrow>
   handle_submission env ((''Content-Type'', ''application/json'') # corsHeaders req) (req_body req) = (Inr res, evs) \<Longrightarrow>
   handler env req = (res, Logged [LStr ''Contact form submission received''] # evs)"
  by (simp add: handler_def)

lemma handler_throws:
  "req_method req \<noteq> ''OPTIONS'' \<Longrightarrow>
   handle_submission env ((''Content-Type'', ''application/json'') # corsHeaders req) (req_body req) = (Inl error, evs) \<Longrightarrow>
   handler env req =
     (\<lparr>res_status = 500, res_headers = (''Content-Type'', ''application/json'') # corsHeaders req,
        res_body = Some (JObj [(''success'', JBool False),
          (''error'', JStr ''Unable to process your request. Please try again later.'')])\<rparr>,
      Logged [LStr ''Contact form submission received''] # evs @
        [Logged [LStr ''Error processing contact form:'',
           if err_message error \<noteq> [] then LStr (err_message error) else LErr error]])"
  by (simp add: handler_def)

lemma reaches_sendD:
  assumes "reaches_send body"
  shows "\<exists>n e c it m.
    \<not> truthy (own_property (js_or body (JObj [])) ''honeypot'') \<and>
    truthy (own_property (js_or body (JObj [])) ''name'') \<and>
    truthy (own_property (js_or body (JObj [])) ''email'') \<and>
    truthy (own_property (js_or body (JObj [])) ''message'') \<and>
    regex_test emailRegex (own_property (js_or body (JObj [])) ''email'') = Inr True \<and>
    interests_text (own_property (js_or body (JObj [])) ''interests'') = Inr it \<and>
    to_string (own_property (js_or body (JObj [])) ''name'') = Inr n \<and>
    to_string (own_property (js_or body (JObj [])) ''email'') = Inr e \<and>
    to_string (js_or (own_property (js_or body (JObj [])) ''company'') (JStr ''Not provided'')) = Inr c \<and>
    to_string (own_property (js_or body (JObj [])) ''message'') = Inr m"
proof -
  from assms have v: "\<not> truthy (own_property (js_or body (JObj [])) ''honeypot'')"
    "truthy (own_property (js_or body (JObj [])) ''name'')"
    "truthy (own_property (js_or body (JObj [])) ''email'')"
    "truthy (own_property (js_or body (JObj [])) ''message'')"
    "regex_test emailRegex (own_property (js_or body (JObj [])) ''email'') = Inr True"
    and c: "converts (interests_text (own_property (js_or body (JObj [])) ''interests''))"
    "converts (to_string (own_property (js_or body (JObj [])) ''name''))"
    "converts (to_string (js_or (own_property (js_or body (JObj [])) ''company'') (JStr ''Not provided'')))"
    "converts (to_string (own_property (js_or body (JObj [])) ''message''))"
    by (simp_all add: reaches_send_def Let_def)
  from v(5) obtain e where "to_string (own_property (js_or body (JObj [])) ''email'') = Inr e"
    by (auto dest: regex_test_Inr)
  with v c show ?thesis unfolding converts_iff by blast
qed

lemma hs_reached:
  assumes "reaches_send body"
  shows "\<exists>evs extra. handle_submission env h body =
     (Inr \<lparr>res_status = 200, res_headers = h,
           res_body = Some (JObj ([(''success'', JBool True),
             (''message'', JStr ''Thank you for your inquiry. We will be in touch within 24 hours.'')] @ extra))\<rparr>,
      evs)"
proof -
  from reaches_sendD [OF assms] obtain n e c it m where
    "\<not> truthy (own_property (js_or body (JObj [])) ''honeypot'')"
    "truthy (own_property (js_or body (JObj [])) ''name'')"
    "truthy (own_property (js_or body (JObj [])) ''email'')"
    "truthy (own_property (js_or body (JObj [])) ''message'')"
    "regex_test emailRegex (own_property (js_or body (JObj [])) ''email'') = Inr True"
    "interests_text (own_property (js_or body (JObj [])) ''interests'') = Inr it"
    "to_string (own_property (js_or body (JObj [])) ''name'') = Inr n"
    "to_string (own_property (js_or body (JObj [])) ''email'') = Inr e"
    "to_string (js_or (own_property (js_or body (JObj [])) ''company'') (JStr ''Not provided'')) = Inr c"
    "to_string (own_property (js_or body (JObj [])) ''message'') = Inr m" by blast
  note eq = hs_reaches_send [OF this, of env h]
  obtain r evs where sn: "send_notification env
             (own_property (js_or body (JObj [])) ''name'')
             (own_property (js_or body (JObj [])) ''email'')
             (own_property (js_or body (JObj [])) ''company'') it
             (own_property (js_or body (JObj [])) ''message'')
             (env_or (process_env env ''SENDER_EMAIL'') ''adam@adammeeker.com'')
             (env_or (process_env env ''OWNER_EMAIL'') ''adam@adammeeker.com'') = (r, evs)"
    by (cases "send_notification env
             (own_property (js_or body (JObj [])) ''name'')
             (own_property (js_or body (JObj [])) ''email'')
             (own_property (js_or body (JObj [])) ''company'') it
             (own_property (js_or body (JObj [])) ''message'')
             (env_or (process_env env ''SENDER_EMAIL'') ''adam@adammeeker.com'')
             (env_or (process_env env ''OWNER_EMAIL'') ''adam@adammeeker.com'')")
  show ?thesis
  proof (cases r)
    case (Inl err)
    with eq sn show ?thesis
      by (intro exI [of _ "submission_log n e c it m @ evs @
             [Logged [LStr ''Email sending failed:'', LStr (err_message err)]]"]
            exI [of _ "[(''note'', JStr ''Email delivery may be delayed.'')]"]) simp
  next
    case (Inr u)
    with eq sn show ?thesis
      by (intro exI [of _ "submission_log n e c it m @ evs"] exI [of _ "[]"]) simp
  qed
qed

lemma handler_response:
  "res_headers (fst (handler env req)) =
     (if req_method req = ''OPTIONS'' then corsHeaders req
      else (''Content-Type'', ''application/json'') # corsHeaders req) \<and>
   (res_status (fst (handler env req)) = 204 \<or> res_status (fst (handler env req)) = 200 \<or>
    res_status (fst (handler env req)) = 400 \<or> res_status (fst (handler env req)) = 500)"
proof (cases "req_method req = ''OPTIONS''")
  case True
  then show ?thesis by (simp add: handler_OPTIONS)
next
  case False
  define h where "h = (''Content-Type'', ''application/json'') # corsHeaders req"
  show ?thesis
  proof (cases "reaches_send (req_body req)")
    case True
    from hs_reached [OF this, of env h] obtain evs extra where
      "handle_submission env h (req_body req) =
        (Inr \<lparr>res_status = 200, res_headers = h,
           res_body = Some (JObj ([(''success'', JBool True),
             (''message'', JStr ''Thank you for your inquiry. We will be in touch within 24 hours.'')] @ extra))\<rparr>,
         evs)" by blast
    with False show ?thesis by (simp add: handler_returns h_def)
  next
    case nr: False
    obtain r evs where hs: "handle_submission env h (req_body req) = (r, evs)"
      by (cases "handle_submission env h (req_body req)")
    show ?thesis
    proof (cases r)
      case (Inl err)
      with hs False show ?thesis by (simp add: handler_throws h_def)
    next
      case (Inr res)
      with hs hs_not_reached [OF nr, of env h]
      have "res_headers res = h \<and> (res_status res = 200 \<or> res_status res = 400)" by simp
      with Inr hs False show ?thesis by (auto simp: handler_returns h_def)
    qed
  qed
qed

subsection \<open>The simple handler, the pattern and the CORS origin\<close>

lemma simple_missing:
  "\<not> truthy (field req ''name'') \<or> \<not> truthy (field req ''email'') \<or> \<not> truthy (field req ''message'') \<Longrightarrow>
   simple_handler now req =
     (Inr \<lparr>res_status = 400, res_headers = [],
           res_body = Some (JObj [(''error'', JStr ''Name, email, and message are required'')])\<rparr>,
      [Logged [LStr ''Contact form submission received'']])"
  by (simp add: simple_handler_def field_def Let_def)

lemma simple_checked:
  "truthy (field req ''name'') \<Longrightarrow> truthy (field req ''email'') \<Longrightarrow> truthy (field req ''message'') \<Longrightarrow>
   fst (simple_handler now req) =
     (case regex_test emailRegex (field req ''email'') of
        Inl e \<Rightarrow> Inl e
      | Inr b \<Rightarrow>
          if b then Inr \<lparr>res_status = 200, res_headers = [(''Content-Type'', ''application/json'')],
                 res_body = Some (JObj [(''success'', JBool True),
                   (''message'', JStr ''Thank you for your inquiry. We will be in touch within 24 hours.'')])\<rparr>
          else Inr \<lparr>res_status = 400, res_headers = [],
                 res_body = Some (JObj [(''error'', JStr ''Invalid email format'')])\<rparr>)"
  by (simp add: simple_handler_def field_def Let_def split: sum.splits)

lemma no_at_no_match:
  assumes "CHR ''@'' \<notin> set s"
  shows "\<not> (\<exists>a b c. s = a @ ''@'' @ b @ ''.'' @ c \<and> a \<noteq> [] \<and> b \<noteq> [] \<and> c \<noteq> [] \<and>
              (\<forall>x\<in>set (a @ b @ c). \<not> js_space x \<and> x \<noteq> CHR ''@''))"
proof
  assume "\<exists>a b c. s = a @ ''@'' @ b @ ''.'' @ c \<and> a \<noteq> [] \<and> b \<noteq> [] \<and> c \<noteq> [] \<and>
              (\<forall>x\<in>set (a @ b @ c). \<not> js_space x \<and> x \<noteq> CHR ''@'')"
  then obtain a b c where "s = a @ ''@'' @ b @ ''.'' @ c" by (elim exE conjE)
  then have "CHR ''@'' \<in> set s" by simp
  with assms show False by simp
qed

lemma corsOrigin_allowed:
  "corsOrigin req \<in> set allowedOrigins \<and>
   (origin req \<notin> JStr ` set allowedOrigins \<longrightarrow> corsOrigin req = allowedOrigins ! 0) \<and>
   (origin req \<in> JStr ` set allowedOrigins \<longrightarrow> origin req = JStr (corsOrigin req))"
  by (cases "origin req") (auto simp: corsOrigin_def allowedOrigins_def)

subsection \<open>Runs and their events\<close>

lemma hs_error:
  assumes "fst (handle_submission env h body) = Inl e"
  shows "e = cannot_convert \<and> \<not> reaches_send body \<and>
         (\<forall>ev\<in>set (snd (handle_submission env h body)). is_log ev)"
proof (cases "reaches_send body")
  case True
  from hs_reached [OF this, of env h] assms show ?thesis by auto
next
  case False
  from hs_not_reached [OF this, of env h] assms False show ?thesis by simp
qed

lemma all_logs_no_calls:
  assumes "\<forall>ev\<in>set evs. is_log ev"
  shows "filter is_token_call evs = [] \<and> filter is_send_call evs = [] \<and> outbound evs = []"
  using assms
proof (induction evs)
  case Nil
  then show ?case by (simp add: outbound_def)
next
  case (Cons ev evs)
  then show ?case by (cases ev) (simp_all add: outbound_def is_token_call_def)
qed

lemma is_log_submission_log [simp]: "\<forall>ev\<in>set (submission_log n e c it m). is_log ev"
  by (simp add: submission_log_def)

lemma not_reached_logs:
  assumes "req_method req = ''OPTIONS'' \<or> \<not> reaches_send (req_body req)"
  shows "\<forall>ev\<in>set (snd (handler env req)). is_log ev"
proof (cases "req_method req = ''OPTIONS''")
  case True
  then show ?thesis by (simp add: handler_OPTIONS)
next
  case False
  with assms have nr: "\<not> reaches_send (req_body req)" by simp
  obtain r evs where hs: "handle_submission env ((''Content-Type'', ''application/json'') # corsHeaders req)
      (req_body req) = (r, evs)"
    by (cases "handle_submission env ((''Content-Type'', ''application/json'') # corsHeaders req)
      (req_body req)")
  with hs_not_reached [OF nr, of env "(''Content-Type'', ''application/json'') # corsHeaders req"]
  have "\<forall>ev\<in>set evs. is_log ev" by simp
  with hs False show ?thesis
    by (cases r) (simp_all add: handler_returns handler_throws)
qed

lemma handler_reached:
  assumes "req_method req \<noteq> ''OPTIONS''"
    and "\<not> truthy (field req ''honeypot'')"
    and "truthy (field req ''name'')" and "truthy (field req ''email'')"
    and "truthy (field req ''message'')"
    and "regex_test emailRegex (field req ''email'') = Inr True"
    and "interests_text (field req ''interests'') = Inr it"
    and "to_string (field req ''name'') = Inr n"
    and "to_string (field req ''email'') = Inr e"
    and "to_string (js_or (field req ''company'') (JStr ''Not provided'')) = Inr c"
    and "to_string (field req ''message'') = Inr m"
    and "sender = env_or (process_env env ''SENDER_EMAIL'') ''adam@adammeeker.com''"
    and "owner = env_or (process_env env ''OWNER_EMAIL'') ''adam@adammeeker.com''"
    and "sj = subject (replace_special it) (replace_special n)"
    and "hb = htmlBody (replace_special n) (replace_special e) (replace_special c)
                (replace_special it) (replace_newlines (replace_special m))"
    and "h = (''Content-Type'', ''application/json'') # corsHeaders req"
  shows "handler env req =
    (case fst (getAccessToken env) of
       Inl err \<Rightarrow>
         (\<lparr>res_status = 200, res_headers = h,
            res_body = Some (JObj [(''success'', JBool True),
              (''message'', JStr ''Thank you for your inquiry. We will be in touch within 24 hours.''),
              (''note'', JStr ''Email delivery may be delayed.'')])\<rparr>,
          Logged [LStr ''Contact form submission received''] # submission_log n e c it m @
            snd (getAccessToken env) @
            [Logged [LStr ''Email sending failed:'', LStr (err_message err)]])
     | Inr tok \<Rightarrow>
        (case fst (sendEmail env tok sender owner sj hb) of
           Inl err \<Rightarrow>
             (\<lparr>res_status = 200, res_headers = h,
                res_body = Some (JObj [(''success'', JBool True),
                  (''message'', JStr ''Thank you for your inquiry. We will be in touch within 24 hours.''),
                  (''note'', JStr ''Email delivery may be delayed.'')])\<rparr>,
              Logged [LStr ''Contact form submission received''] # submission_log n e c it m @
                snd (getAccessToken env) @ snd (sendEmail env tok sender owner sj hb) @
                [Logged [LStr ''Email sending failed:'', LStr (err_message err)]])
         | Inr ok \<Rightarrow>
             (\<lparr>res_status = 200, res_headers = h,
                res_body = Some (JObj [(''success'', JBool True),
                  (''message'', JStr ''Thank you for your inquiry. We will be in touch within 24 hours.'')])\<rparr>,
              Logged [LStr ''Contact form submission received''] # submission_log n e c it m @
                snd (getAccessToken env) @ snd (sendEmail env tok sender owner sj hb) @
                [Logged [LStr ''Email sent successfully'']])))"
proof -
  note v = assms(2-11) [unfolded field_def]
  have hs: "handle_submission env h (req_body req) =
     (case send_notification env (field req ''name'') (field req ''email'') (field req ''company'') it
             (field req ''message'') sender owner of
        (Inr _, evs) \<Rightarrow>
          (Inr \<lparr>res_status = 200, res_headers = h,
             res_body = Some (JObj [(''success'', JBool True),
               (''message'', JStr ''Thank you for your inquiry. We will be in touch within 24 hours.'')])\<rparr>,
           submission_log n e c it m @ evs)
      | (Inl emailError, evs) \<Rightarrow>
          (Inr \<lparr>res_status = 200, res_headers = h,
             res_body = Some (JObj [(''success'', JBool True),
               (''message'', JStr ''Thank you for your inquiry. We will be in touch within 24 hours.''),
               (''note'', JStr ''Email delivery may be delayed.'')])\<rparr>,
           submission_log n e c it m @ evs @
             [Logged [LStr ''Email sending failed:'', LStr (err_message emailError)]]))"
    unfolding field_def assms(12,13) by (rule hs_reaches_send [OF v])
  have sn: "send_notification env (field req ''name'') (field req ''email'') (field req ''company'') it
             (field req ''message'') sender owner =
    (case getAccessToken env of
       (Inl err, evs) \<Rightarrow> (Inl err, evs)
     | (Inr tok, evs) \<Rightarrow>
       (case sendEmail env tok sender owner sj hb of
          (Inl err, evs') \<Rightarrow> (Inl err, evs @ evs')
        | (Inr _, evs') \<Rightarrow> (Inr (), evs @ evs' @ [Logged [LStr ''Email sent successfully'']])))"
    unfolding assms(14,15)
    by (rule send_notification_eq [OF assms(3) assms(8) assms(4) assms(9) assms(10) assms(5) assms(11)])
  obtain g gevs where g: "getAccessToken env = (g, gevs)" by (cases "getAccessToken env")
  show ?thesis
  proof (cases g)
    case (Inl err)
    with g sn hs assms(1) show ?thesis
      by (simp add: handler_returns [where res = "\<lparr>res_status = 200, res_headers = h,
                res_body = Some (JObj [(''success'', JBool True),
                  (''message'', JStr ''Thank you for your inquiry. We will be in touch within 24 hours.''),
                  (''note'', JStr ''Email delivery may be delayed.'')])\<rparr>"] assms(16) [symmetric])
  next
    case (Inr tok)
    obtain s sevs where s: "sendEmail env tok sender owner sj hb = (s, sevs)"
      by (cases "sendEmail env tok sender owner sj hb")
    show ?thesis
    proof (cases s)
      case (Inl err)
      with Inr g s sn hs assms(1) show ?thesis
        by (simp add: handler_returns [where res = "\<lparr>res_status = 200, res_headers = h,
                res_body = Some (JObj [(''success'', JBool True),
                  (''message'', JStr ''Thank you for your inquiry. We will be in touch within 24 hours.''),
                  (''note'', JStr ''Email delivery may be delayed.'')])\<rparr>"] assms(16) [symmetric])
    next
      case ok: (Inr ok)
      with Inr g s sn hs assms(1) show ?thesis
        by (simp add: handler_returns [where res = "\<lparr>res_status = 200, res_headers = h,
                res_body = Some (JObj [(''success'', JBool True),
                  (''message'', JStr ''Thank you for your inquiry. We will be in touch within 24 hours.'')])\<rparr>"]
              assms(16) [symmetric])
    qed
  qed
qed

lemma reached_fields:
  assumes "reaches_send (req_body req)"
  shows "\<exists>n e c it m.
    \<not> truthy (field req ''honeypot'') \<and> truthy (field req ''name'') \<and>
    truthy (field req ''email'') \<and> truthy (field req ''message'') \<and>
    regex_test emailRegex (field req ''email'') = Inr True \<and>
    interests_text (field req ''interests'') = Inr it \<and>
    to_string (field req ''name'') = Inr n \<and>
    to_string (field req ''email'') = Inr e \<and>
    to_string (js_or (field req ''company'') (JStr ''Not provided'')) = Inr c \<and>
    to_string (field req ''message'') = Inr m"
  unfolding field_def by (rule reaches_sendD [OF assms])

lemma call_reached:
  assumes "ev \<in> set (snd (handler env req))" and "\<not> is_log ev"
  shows "req_method req \<noteq> ''OPTIONS'' \<and> reaches_send (req_body req)"
proof (rule ccontr)
  assume "\<not> (req_method req \<noteq> ''OPTIONS'' \<and> reaches_send (req_body req))"
  then have "req_method req = ''OPTIONS'' \<or> \<not> reaches_send (req_body req)" by simp
  from not_reached_logs [OF this, of env] assms show False by blast
qed

lemma snd_getAccessToken_exact:
  "snd (getAccessToken env) = [Called_getAccessToken, Fetched (token_request env)]"
  by (simp add: getAccessToken_def Let_def and_then_js_fetch tokenUrl_def token_request_def
        split: sum.splits)

lemma snd_sendEmail_exact:
  "snd (sendEmail env tok f t s b) =
     Called_sendEmail tok f t s b #
       (case to_string tok of Inl err \<Rightarrow> [] | Inr bearer \<Rightarrow> [Fetched (mail_request bearer f t s b)])"
  by (simp add: sendEmail_def Let_def and_then_js_fetch graphUrl_def mail_request_def returning_def
        split: sum.splits)

lemma outbound_simps [simp]:
  "outbound [] = []"
  "outbound (Logged args # evs) = outbound evs"
  "outbound (Called_getAccessToken # evs) = outbound evs"
  "outbound (Called_sendEmail tok a b c d # evs) = outbound evs"
  "outbound (Fetched r # evs) = r # outbound evs"
  "outbound (xs @ ys) = outbound xs @ outbound ys"
  by (simp_all add: outbound_def)

lemma submission_log_no_calls [simp]:
  "filter is_token_call (submission_log n e c it m) = []"
  "filter is_send_call (submission_log n e c it m) = []"
  "outbound (submission_log n e c it m) = []"
  using all_logs_no_calls [OF is_log_submission_log, of n e c it m] by simp_all

lemma is_token_call_simps [simp]:
  "is_token_call Called_getAccessToken"
  "\<not> is_token_call (Logged args)"
  "\<not> is_token_call (Fetched r)"
  "\<not> is_token_call (Called_sendEmail tok a b c d)"
  by (simp_all add: is_token_call_def)

section \<open>The claims\<close>

text \<open>
  Claim C7. For every input string, the output of escapeHtml contains none of the
  characters \<^verbatim>\<open><\<close>, \<^verbatim>\<open>>\<close>, the double quote and the single quote, and is the input with
  each \<^verbatim>\<open>&\<close>, \<^verbatim>\<open><\<close>, \<^verbatim>\<open>>\<close>, double quote and single quote replaced by its entity;
  for every falsy input (the empty string included) it returns the empty string.
\<close>

theorem escapeHtml_entities:
  "(\<exists>out. escapeHtml (JStr s) = Inr out \<and>
      out = concat (map (\<lambda>c. if c = CHR ''&'' then ''&amp;''
                       else if c = CHR ''<'' then ''&lt;''
                       else if c = CHR ''>'' then ''&gt;''
                       else if c = CHR 0x22 then ''&quot;''
                       else if c = CHR 0x27 then ''&#39;''
                       else [c]) s) \<and>
      CHR ''<'' \<notin> set out \<and> CHR ''>'' \<notin> set out \<and> CHR 0x22 \<notin> set out \<and> CHR 0x27 \<notin> set out) \<and>
   (\<not> truthy v \<longrightarrow> escapeHtml v = Inr [])"
proof -
  have "escapeHtml (JStr s) = Inr (replace_special s)" by (rule escapeHtml_JStr)
  moreover have "\<not> truthy v \<longrightarrow> escapeHtml v = Inr []" by (simp add: escapeHtml_def)
  ultimately show ?thesis
    using replace_special_entities [of s] replace_special_clean [of s] by simp
qed

theorem escapeHtml_entities_witness:
  "escapeHtml (JStr ''<a href=\"x\">T&C's</a>'') = Inr ''&lt;a href=&quot;x&quot;&gt;T&amp;C&#39;s&lt;/a&gt;'' \<and>
   \<not> truthy (JNum ''0'') \<and> escapeHtml (JNum ''0'') = Inr [] \<and>
   \<not> truthy (JStr []) \<and> escapeHtml (JStr []) = Inr []"
  using escapeHtml_entities [of "''<a href=\"x\">T&C's</a>''" "JNum ''0''"]
        escapeHtml_entities [of "[]" "JStr []"]
  by simp

text \<open>
  Claim C1. For every request other than OPTIONS whose body has a truthy honeypot
  field, the handler answers 200 with the success body and calls neither
  getAccessToken nor sendEmail (and hands nothing to fetch), whatever name, email and
  message are.
\<close>

theorem honeypot_short_circuit:
  assumes "req_method req \<noteq> ''OPTIONS''" and "truthy (field req ''honeypot'')"
  shows "res_status (fst (handler env req)) = 200 \<and>
         res_body (fst (handler env req)) =
           Some (JObj [(''success'', JBool True),
             (''message'', JStr ''Thank you for your inquiry. We will be in touch within 24 hours.'')]) \<and>
         filter is_token_call (snd (handler env req)) = [] \<and>
         filter is_send_call (snd (handler env req)) = [] \<and>
         outbound (snd (handler env req)) = []"
proof -
  from assms(2) have "truthy (own_property (js_or (req_body req) (JObj [])) ''honeypot'')"
    by (simp add: field_def)
  then have "handle_submission env ((''Content-Type'', ''application/json'') # corsHeaders req) (req_body req) =
     (Inr \<lparr>res_status = 200, res_headers = (''Content-Type'', ''application/json'') # corsHeaders req,
           res_body = Some (JObj [(''success'', JBool True),
             (''message'', JStr ''Thank you for your inquiry. We will be in touch within 24 hours.'')])\<rparr>,
      [Logged [LStr ''Honeypot triggered - likely spam'']])"
    by (rule hs_honeypot)
  with assms(1) show ?thesis
    by (simp add: handler_returns is_token_call_def outbound_def)
qed

theorem honeypot_short_circuit_witness:
  "req_method (post (JObj [(''honeypot'', JStr ''http://spam.example''), (''email'', JStr ''not an email'')])) \<noteq> ''OPTIONS'' \<and>
   truthy (field (post (JObj [(''honeypot'', JStr ''http://spam.example''), (''email'', JStr ''not an email'')])) ''honeypot'') \<and>
   \<not> truthy (field (post (JObj [(''honeypot'', JStr ''http://spam.example''), (''email'', JStr ''not an email'')])) ''name'') \<and>
   res_status (fst (handler reachable
      (post (JObj [(''honeypot'', JStr ''http://spam.example''), (''email'', JStr ''not an email'')])))) = 200 \<and>
   outbound (snd (handler reachable
      (post (JObj [(''honeypot'', JStr ''http://spam.example''), (''email'', JStr ''not an email'')])))) = []"
proof -
  have a: "req_method (post (JObj [(''honeypot'', JStr ''http://spam.example''), (''email'', JStr ''not an email'')])) \<noteq> ''OPTIONS''"
    by (simp add: post_def)
  have b: "truthy (field (post (JObj [(''honeypot'', JStr ''http://spam.example''), (''email'', JStr ''not an email'')])) ''honeypot'')"
    by (simp add: post_def field_def js_or_def own_property_def)
  have c: "\<not> truthy (field (post (JObj [(''honeypot'', JStr ''http://spam.example''), (''email'', JStr ''not an email'')])) ''name'')"
    by (simp add: post_def field_def js_or_def own_property_def)
  from a b c honeypot_short_circuit [OF a b, of reachable] show ?thesis by simp
qed

text \<open>
  Claim C4, as amended. For every request whose body lacks name, email or message
  (absent or falsy), the simple handler answers 400 with the message that the three
  are required; so does the full handler when the request is not OPTIONS and the
  honeypot field is empty, and it then hands nothing to fetch. (With a filled honeypot
  the full handler answers 200 first: the counterexample below.)
\<close>

theorem missing_field_400:
  assumes "\<not> truthy (field req ''name'') \<or> \<not> truthy (field req ''email'') \<or>
           \<not> truthy (field req ''message'')"
  shows "fst (simple_handler now req) =
           Inr \<lparr>res_status = 400, res_headers = [],
                 res_body = Some (JObj [(''error'', JStr ''Name, email, and message are required'')])\<rparr> \<and>
         (req_method req \<noteq> ''OPTIONS'' \<and> \<not> truthy (field req ''honeypot'') \<longrightarrow>
            res_status (fst (handler env req)) = 400 \<and>
            res_body (fst (handler env req)) =
              Some (JObj [(''success'', JBool False),
                          (''error'', JStr ''Name, email, and message are required'')]) \<and>
            outbound (snd (handler env req)) = [])"
proof -
  have "handler env req =
      (\<lparr>res_status = 400, res_headers = (''Content-Type'', ''application/json'') # corsHeaders req,
         res_body = Some (JObj [(''success'', JBool False),
           (''error'', JStr ''Name, email, and message are required'')])\<rparr>,
       [Logged [LStr ''Contact form submission received'']])"
    if "req_method req \<noteq> ''OPTIONS''" and "\<not> truthy (field req ''honeypot'')"
    using that assms hs_missing [of "req_body req" env "(''Content-Type'', ''application/json'') # corsHeaders req"]
    by (simp add: field_def handler_returns)
  then show ?thesis using assms by (simp add: simple_missing outbound_def)
qed

theorem missing_field_400_witness:
  "\<not> truthy (field (post (JObj [(''name'', JStr ''Ann''), (''email'', JStr []), (''honeypot'', JStr [])])) ''email'') \<and>
   req_method (post (JObj [(''name'', JStr ''Ann''), (''email'', JStr []), (''honeypot'', JStr [])])) \<noteq> ''OPTIONS'' \<and>
   \<not> truthy (field (post (JObj [(''name'', JStr ''Ann''), (''email'', JStr []), (''honeypot'', JStr [])])) ''honeypot'') \<and>
   res_status (fst (handler reachable
     (post (JObj [(''name'', JStr ''Ann''), (''email'', JStr []), (''honeypot'', JStr [])])))) = 400 \<and>
   fst (simple_handler ''2026-01-01T00:00:00.000Z''
     (post (JObj [(''name'', JStr ''Ann''), (''email'', JStr []), (''honeypot'', JStr [])]))) =
     Inr \<lparr>res_status = 400, res_headers = [],
           res_body = Some (JObj [(''error'', JStr ''Name, email, and message are required'')])\<rparr>"
proof -
  have a: "\<not> truthy (field (post (JObj [(''name'', JStr ''Ann''), (''email'', JStr []), (''honeypot'', JStr [])])) ''email'')"
    by (simp add: post_def field_def js_or_def own_property_def)
  have b: "req_method (post (JObj [(''name'', JStr ''Ann''), (''email'', JStr []), (''honeypot'', JStr [])])) \<noteq> ''OPTIONS''"
    by (simp add: post_def)
  have c: "\<not> truthy (field (post (JObj [(''name'', JStr ''Ann''), (''email'', JStr []), (''honeypot'', JStr [])])) ''honeypot'')"
    by (simp add: post_def field_def js_or_def own_property_def)
  from a have "\<not> truthy (field (post (JObj [(''name'', JStr ''Ann''), (''email'', JStr []), (''honeypot'', JStr [])])) ''name'') \<or>
     \<not> truthy (field (post (JObj [(''name'', JStr ''Ann''), (''email'', JStr []), (''honeypot'', JStr [])])) ''email'') \<or>
     \<not> truthy (field (post (JObj [(''name'', JStr ''Ann''), (''email'', JStr []), (''honeypot'', JStr [])])) ''message'')"
    by simp
  from missing_field_400 [OF this, of "''2026-01-01T00:00:00.000Z''" reachable] a b c
  show ?thesis by simp
qed

text \<open>
  Claim C4 as stated fails: a POST whose body has only a filled honeypot lacks all
  three fields and is answered 200.
\<close>

theorem honeypot_overrides_missing_field:
  "req_method (post (JObj [(''honeypot'', JStr ''x'')])) \<noteq> ''OPTIONS'' \<and>
   \<not> truthy (field (post (JObj [(''honeypot'', JStr ''x'')])) ''name'') \<and>
   \<not> truthy (field (post (JObj [(''honeypot'', JStr ''x'')])) ''email'') \<and>
   \<not> truthy (field (post (JObj [(''honeypot'', JStr ''x'')])) ''message'') \<and>
   res_status (fst (handler unreachable (post (JObj [(''honeypot'', JStr ''x'')])))) = 200 \<and>
   res_status (fst (handler unreachable (post (JObj [(''honeypot'', JStr ''x'')])))) \<noteq> 400"
  by (simp add: post_def field_def js_or_def own_property_def handler_def hs_honeypot)

text \<open>
  Claim C5, as amended. For every request other than OPTIONS with an empty honeypot and
  with name, email and message present, if the email converts to a string and that
  string is not of the form: one or more characters that are neither whitespace nor
  \<^verbatim>\<open>@\<close>, then \<^verbatim>\<open>@\<close>, then one or more such characters, then a dot, then one or more
  such characters, the handler answers 400 with the error message
  \<^verbatim>\<open>Invalid email format\<close> and sends no mail: its run has no call of getAccessToken or
  sendEmail and no fetch. The simple handler answers 400 with the same message. (An
  email with no string form is answered 500: the counterexample below.)
\<close>

theorem invalid_email_400:
  assumes "req_method req \<noteq> ''OPTIONS''"
    and "\<not> truthy (field req ''honeypot'')"
    and "truthy (field req ''name'')" and "truthy (field req ''email'')"
    and "truthy (field req ''message'')"
    and "to_string (field req ''email'') = Inr s"
    and "\<not> (\<exists>a b c. s = a @ ''@'' @ b @ ''.'' @ c \<and> a \<noteq> [] \<and> b \<noteq> [] \<and> c \<noteq> [] \<and>
              (\<forall>x\<in>set (a @ b @ c). \<not> js_space x \<and> x \<noteq> CHR ''@''))"
  shows "res_status (fst (handler env req)) = 400 \<and>
         res_body (fst (handler env req)) =
           Some (JObj [(''success'', JBool False), (''error'', JStr ''Invalid email format'')]) \<and>
         filter is_token_call (snd (handler env req)) = [] \<and>
         filter is_send_call (snd (handler env req)) = [] \<and>
         outbound (snd (handler env req)) = [] \<and>
         fst (simple_handler now req) =
           Inr \<lparr>res_status = 400, res_headers = [],
                 res_body = Some (JObj [(''error'', JStr ''Invalid email format'')])\<rparr>"
proof -
  from assms(7) have "\<not> rx_match emailRegex s" by (simp add: emailRegex_shape)
  with assms(6) have rx: "regex_test emailRegex (field req ''email'') = Inr False"
    by (simp add: regex_test_def)
  with assms(2-5)
  have "handle_submission env ((''Content-Type'', ''application/json'') # corsHeaders req) (req_body req) =
     (Inr \<lparr>res_status = 400, res_headers = (''Content-Type'', ''application/json'') # corsHeaders req,
           res_body = Some (JObj [(''success'', JBool False),
             (''error'', JStr ''Invalid email format'')])\<rparr>, [])"
    by (simp add: field_def hs_invalid)
  with assms(1) have "handler env req =
     (\<lparr>res_status = 400, res_headers = (''Content-Type'', ''application/json'') # corsHeaders req,
           res_body = Some (JObj [(''success'', JBool False),
             (''error'', JStr ''Invalid email format'')])\<rparr>,
      [Logged [LStr ''Contact form submission received'']])"
    by (simp add: handler_returns)
  moreover from assms(3-5) rx have "fst (simple_handler now req) =
           Inr \<lparr>res_status = 400, res_headers = [],
                 res_body = Some (JObj [(''error'', JStr ''Invalid email format'')])\<rparr>"
    by (simp add: simple_checked)
  ultimately show ?thesis by (simp add: is_token_call_def outbound_def)
qed

theorem invalid_email_400_witness:
  "req_method (post (JObj [(''name'', JStr ''Ann''), (''email'', JStr ''ann.example.org''), (''message'', JStr ''hi'')])) \<noteq> ''OPTIONS'' \<and>
   to_string (field (post (JObj [(''name'', JStr ''Ann''), (''email'', JStr ''ann.example.org''), (''message'', JStr ''hi'')])) ''email'') = Inr ''ann.example.org'' \<and>
   res_status (fst (handler reachable
     (post (JObj [(''name'', JStr ''Ann''), (''email'', JStr ''ann.example.org''), (''message'', JStr ''hi'')])))) = 400 \<and>
   outbound (snd (handler reachable
     (post (JObj [(''name'', JStr ''Ann''), (''email'', JStr ''ann.example.org''), (''message'', JStr ''hi'')])))) = []"
proof -
  let ?r = "post (JObj [(''name'', JStr ''Ann''), (''email'', JStr ''ann.example.org''), (''message'', JStr ''hi'')])"
  have a: "req_method ?r \<noteq> ''OPTIONS''" by (simp add: post_def)
  have b: "\<not> truthy (field ?r ''honeypot'')" "truthy (field ?r ''name'')" "truthy (field ?r ''email'')"
    "truthy (field ?r ''message'')"
    by (simp_all add: post_def field_def js_or_def own_property_def)
  have c: "to_string (field ?r ''email'') = Inr ''ann.example.org''"
    by (simp add: post_def field_def js_or_def own_property_def)
  have d: "\<not> (\<exists>a b c. ''ann.example.org'' = a @ ''@'' @ b @ ''.'' @ c \<and> a \<noteq> [] \<and> b \<noteq> [] \<and> c \<noteq> [] \<and>
              (\<forall>x\<in>set (a @ b @ c). \<not> js_space x \<and> x \<noteq> CHR ''@''))"
    by (rule no_at_no_match) simp
  from invalid_email_400 [OF a b c d, of reachable "''2026-01-01T00:00:00.000Z''"] a c
  show ?thesis by simp
qed

text \<open>
  Claim C5, as stated, fails: with an empty honeypot and the three fields present, an
  email that is an object with an own \<^verbatim>\<open>toString\<close> does not match the pattern (the
  test throws, the email having no string form), and the handler answers 500, not 400.
\<close>

theorem unconvertible_email_500:
  "req_method (post odd_email_body) \<noteq> ''OPTIONS'' \<and>
   \<not> truthy (field (post odd_email_body) ''honeypot'') \<and>
   truthy (field (post odd_email_body) ''name'') \<and>
   truthy (field (post odd_email_body) ''email'') \<and>
   truthy (field (post odd_email_body) ''message'') \<and>
   to_string (field (post odd_email_body) ''email'') =
     Inl (JsError ''TypeError'' ''Cannot convert object to primitive value'') \<and>
   regex_test emailRegex (field (post odd_email_body) ''email'') \<noteq> Inr True \<and>
   res_status (fst (handler reachable (post odd_email_body))) = 500 \<and>
   res_status (fst (handler reachable (post odd_email_body))) \<noteq> 400 \<and>
   res_body (fst (handler reachable (post odd_email_body))) =
     Some (JObj [(''success'', JBool False),
                 (''error'', JStr ''Unable to process your request. Please try again later.'')])"
  by code_simp

text \<open>
  Claim C8. For every request with method OPTIONS the handler answers 204 with the
  CORS headers and no body; it validates nothing, does not look at the honeypot and
  makes no outbound call: the answer and the run are the same for every body and
  every environment, and the run is the one log line written on entry.
\<close>

theorem preflight_204:
  assumes "req_method req = ''OPTIONS''"
  shows "fst (handler env req) =
           \<lparr>res_status = 204,
            res_headers = [(''Access-Control-Allow-Origin'', corsOrigin req),
                           (''Access-Control-Allow-Methods'', ''POST, OPTIONS''),
                           (''Access-Control-Allow-Headers'', ''Content-Type'')],
            res_body = None\<rparr> \<and>
         snd (handler env req) = [Logged [LStr ''Contact form submission received'']] \<and>
         filter is_token_call (snd (handler env req)) = [] \<and>
         filter is_send_call (snd (handler env req)) = [] \<and>
         outbound (snd (handler env req)) = [] \<and>
         handler env' (req\<lparr>req_body := body\<rparr>) = handler env req"
  using assms
  by (simp add: handler_OPTIONS corsHeaders_def corsOrigin_def origin_def header_def
        is_token_call_def outbound_def)

theorem preflight_204_witness:
  "res_status (fst (handler unreachable
      \<lparr>req_method = ''OPTIONS'', req_headers = [(''origin'', ''https://www.meekertechnologies.com'')],
       req_body = JObj [(''honeypot'', JStr ''x'')]\<rparr>)) = 204 \<and>
   res_body (fst (handler unreachable
      \<lparr>req_method = ''OPTIONS'', req_headers = [(''origin'', ''https://www.meekertechnologies.com'')],
       req_body = JObj [(''honeypot'', JStr ''x'')]\<rparr>)) = None \<and>
   map_of (res_headers (fst (handler unreachable
      \<lparr>req_method = ''OPTIONS'', req_headers = [(''origin'', ''https://www.meekertechnologies.com'')],
       req_body = JObj [(''honeypot'', JStr ''x'')]\<rparr>))) ''Access-Control-Allow-Origin'' =
     Some ''https://www.meekertechnologies.com''"
  using preflight_204 [of "\<lparr>req_method = ''OPTIONS'',
       req_headers = [(''origin'', ''https://www.meekertechnologies.com'')],
       req_body = JObj [(''honeypot'', JStr ''x'')]\<rparr>" unreachable unreachable JNull]
  by (simp add: corsOrigin_def origin_def header_def js_or_def allowedOrigins_def)

text \<open>
  Claim C9. Every response of the full handler, whose status is 204, 200, 400 or 500,
  carries an Access-Control-Allow-Origin header whose value is one of the three
  allowlisted origins; a request origin outside the allowlist is not reflected: the
  header is then the first allowlisted origin.
\<close>

theorem cors_origin_allowlisted:
  "(res_status (fst (handler env req)) = 204 \<or> res_status (fst (handler env req)) = 200 \<or>
    res_status (fst (handler env req)) = 400 \<or> res_status (fst (handler env req)) = 500) \<and>
   (\<exists>v. map_of (res_headers (fst (handler env req))) ''Access-Control-Allow-Origin'' = Some v \<and>
      (v = ''https://meekertechnologies.com'' \<or> v = ''https://www.meekertechnologies.com'' \<or>
       v = ''https://witty-hill-016919110.1.azurestaticapps.net'') \<and>
      v \<in> set allowedOrigins \<and>
      (origin req \<notin> JStr ` set allowedOrigins \<longrightarrow> v = ''https://meekertechnologies.com'') \<and>
      (origin req \<in> JStr ` set allowedOrigins \<longrightarrow> origin req = JStr v))"
proof -
  have "map_of (res_headers (fst (handler env req))) ''Access-Control-Allow-Origin'' =
          Some (corsOrigin req)"
    using handler_response [of env req] by (simp add: corsHeaders_def)
  moreover have "corsOrigin req = ''https://meekertechnologies.com'' \<or>
       corsOrigin req = ''https://www.meekertechnologies.com'' \<or>
       corsOrigin req = ''https://witty-hill-016919110.1.azurestaticapps.net''"
    using corsOrigin_allowed [of req] by (simp add: allowedOrigins_def)
  moreover have "origin req \<notin> JStr ` set allowedOrigins \<longrightarrow>
       corsOrigin req = ''https://meekertechnologies.com''"
    using corsOrigin_allowed [of req] by (simp add: allowedOrigins_def)
  ultimately show ?thesis
    using handler_response [of env req] corsOrigin_allowed [of req] by simp
qed

theorem cors_origin_allowlisted_witness:
  "origin \<lparr>req_method = ''POST'', req_headers = [(''origin'', ''https://evil.example'')],
          req_body = JUndefined\<rparr> = JStr ''https://evil.example'' \<and>
   JStr ''https://evil.example'' \<notin> JStr ` set allowedOrigins \<and>
   res_status (fst (handler unreachable
      \<lparr>req_method = ''POST'', req_headers = [(''origin'', ''https://evil.example'')],
       req_body = JUndefined\<rparr>)) = 400 \<and>
   map_of (res_headers (fst (handler unreachable
      \<lparr>req_method = ''POST'', req_headers = [(''origin'', ''https://evil.example'')],
       req_body = JUndefined\<rparr>))) ''Access-Control-Allow-Origin'' =
     Some ''https://meekertechnologies.com''"
proof -
  let ?r = "\<lparr>req_method = ''POST'', req_headers = [(''origin'', ''https://evil.example'')],
          req_body = JUndefined\<rparr>"
  have a: "origin ?r = JStr ''https://evil.example''"
    by (simp add: origin_def header_def js_or_def)
  have b: "JStr ''https://evil.example'' \<notin> JStr ` set allowedOrigins"
    by (simp add: allowedOrigins_def)
  have c: "res_status (fst (handler unreachable ?r)) = 400"
    by (simp add: handler_def hs_missing js_or_def own_property_def)
  from cors_origin_allowlisted [of unreachable ?r] a b c show ?thesis by auto
qed

text \<open>
  Claim C6. For every request on which the processing (the body of the outer try)
  throws, that is, on an error raised outside the guarded token and mail step, the
  handler answers 500 with success false and the fixed message
  \<^verbatim>\<open>Unable to process your request. Please try again later.\<close>: the body is this
  constant, so nothing of the exception is in it. (The message goes to the log.)
\<close>

theorem unexpected_exception_500:
  assumes "req_method req \<noteq> ''OPTIONS''"
    and "fst (handle_submission env ((''Content-Type'', ''application/json'') # corsHeaders req)
                (req_body req)) = Inl e"
  shows "res_status (fst (handler env req)) = 500 \<and>
         res_body (fst (handler env req)) =
           Some (JObj [(''success'', JBool False),
                       (''error'', JStr ''Unable to process your request. Please try again later.'')]) \<and>
         last (snd (handler env req)) =
           Logged [LStr ''Error processing contact form:'',
                   if err_message e \<noteq> [] then LStr (err_message e) else LErr e] \<and>
         filter is_token_call (snd (handler env req)) = [] \<and>
         filter is_send_call (snd (handler env req)) = [] \<and>
         outbound (snd (handler env req)) = []"
proof -
  obtain evs where hs: "handle_submission env ((''Content-Type'', ''application/json'') # corsHeaders req)
                (req_body req) = (Inl e, evs)"
    using assms(2)
    by (cases "handle_submission env ((''Content-Type'', ''application/json'') # corsHeaders req)
                (req_body req)") simp
  from hs_error [OF assms(2)] hs have logs: "\<forall>ev\<in>set evs. is_log ev" by simp
  have "filter is_token_call evs = [] \<and> filter is_send_call evs = [] \<and> outbound evs = []"
    using logs
  proof (induction evs)
    case Nil
    then show ?case by (simp add: outbound_def)
  next
    case (Cons ev evs)
    then show ?case by (cases ev) (simp_all add: outbound_def is_token_call_def)
  qed
  with assms(1) hs show ?thesis
    by (simp add: handler_throws is_token_call_def outbound_def)
qed

theorem unexpected_exception_500_witness:
  "req_method (post (JObj [(''name'', JStr ''Ann''), (''email'', JObj [(''toString'', JNum ''1'')]),
                           (''message'', JStr ''hi'')])) \<noteq> ''OPTIONS'' \<and>
   fst (handle_submission reachable
          ((''Content-Type'', ''application/json'') #
             corsHeaders (post (JObj [(''name'', JStr ''Ann''), (''email'', JObj [(''toString'', JNum ''1'')]),
                           (''message'', JStr ''hi'')])))
          (req_body (post (JObj [(''name'', JStr ''Ann''), (''email'', JObj [(''toString'', JNum ''1'')]),
                           (''message'', JStr ''hi'')])))) =
     Inl (JsError ''TypeError'' ''Cannot convert object to primitive value'') \<and>
   res_status (fst (handler reachable
      (post (JObj [(''name'', JStr ''Ann''), (''email'', JObj [(''toString'', JNum ''1'')]),
                   (''message'', JStr ''hi'')])))) = 500 \<and>
   res_body (fst (handler reachable
      (post (JObj [(''name'', JStr ''Ann''), (''email'', JObj [(''toString'', JNum ''1'')]),
                   (''message'', JStr ''hi'')])))) =
     Some (JObj [(''success'', JBool False),
                 (''error'', JStr ''Unable to process your request. Please try again later.'')])"
proof -
  let ?r = "post (JObj [(''name'', JStr ''Ann''), (''email'', JObj [(''toString'', JNum ''1'')]),
                           (''message'', JStr ''hi'')])"
  have a: "req_method ?r \<noteq> ''OPTIONS''" by (simp add: post_def)
  have b: "fst (handle_submission reachable ((''Content-Type'', ''application/json'') # corsHeaders ?r)
             (req_body ?r)) = Inl (JsError ''TypeError'' ''Cannot convert object to primitive value'')"
    by (simp add: post_def hs_regex_throws js_or_def own_property_def regex_test_def cannot_convert_def)
  from unexpected_exception_500 [OF a b] a b show ?thesis by simp
qed

text \<open>
  Claim C3. For every request on which getAccessToken or sendEmail throws (the run
  calls the function, and the function throws an error \<open>e\<close>), the handler answers
  200 with the fixed body whose field success is true (with the note that delivery
  may be delayed): the body is a constant, so the error's message is not in it. The
  message goes to the log.
\<close>

theorem delivery_failure_200:
  assumes "(Called_getAccessToken \<in> set (snd (handler env req)) \<and>
              fst (getAccessToken env) = Inl e) \<or>
           (Called_sendEmail tok sender owner sj hb \<in> set (snd (handler env req)) \<and>
              fst (sendEmail env tok sender owner sj hb) = Inl e)"
  shows "res_status (fst (handler env req)) = 200 \<and>
         res_body (fst (handler env req)) =
           Some (JObj [(''success'', JBool True),
             (''message'', JStr ''Thank you for your inquiry. We will be in touch within 24 hours.''),
             (''note'', JStr ''Email delivery may be delayed.'')]) \<and>
         last (snd (handler env req)) =
           Logged [LStr ''Email sending failed:'', LStr (err_message e)]"
proof -
  from assms obtain ev where "ev \<in> set (snd (handler env req))" "\<not> is_log ev"
    by (elim disjE conjE) (fastforce, fastforce)
  then have m: "req_method req \<noteq> ''OPTIONS''" and r: "reaches_send (req_body req)"
    using call_reached by blast+
  from reached_fields [OF r] obtain n em c it ms where v:
    "\<not> truthy (field req ''honeypot'')" "truthy (field req ''name'')"
    "truthy (field req ''email'')" "truthy (field req ''message'')"
    "regex_test emailRegex (field req ''email'') = Inr True"
    "interests_text (field req ''interests'') = Inr it"
    "to_string (field req ''name'') = Inr n"
    "to_string (field req ''email'') = Inr em"
    "to_string (js_or (field req ''company'') (JStr ''Not provided'')) = Inr c"
    "to_string (field req ''message'') = Inr ms" by blast
  note run = handler_reached [OF m v refl refl refl refl refl, of env]
  obtain rq where gevs: "snd (getAccessToken env) = [Called_getAccessToken, Fetched rq]"
    using snd_getAccessToken [of env] by blast
  show ?thesis
  proof (cases "fst (getAccessToken env)")
    case (Inl err)
    with run have h: "handler env req =
         (\<lparr>res_status = 200, res_headers = (''Content-Type'', ''application/json'') # corsHeaders req,
            res_body = Some (JObj [(''success'', JBool True),
              (''message'', JStr ''Thank you for your inquiry. We will be in touch within 24 hours.''),
              (''note'', JStr ''Email delivery may be delayed.'')])\<rparr>,
          Logged [LStr ''Contact form submission received''] # submission_log n em c it ms @
            snd (getAccessToken env) @
            [Logged [LStr ''Email sending failed:'', LStr (err_message err)]])" by simp
    from assms have "err = e"
    proof
      assume "Called_getAccessToken \<in> set (snd (handler env req)) \<and> fst (getAccessToken env) = Inl e"
      with Inl show ?thesis by simp
    next
      assume "Called_sendEmail tok sender owner sj hb \<in> set (snd (handler env req)) \<and>
              fst (sendEmail env tok sender owner sj hb) = Inl e"
      then have "Called_sendEmail tok sender owner sj hb \<in> set (snd (handler env req))" ..
      with h gevs have False by (simp add: submission_log_def)
      then show ?thesis ..
    qed
    with h show ?thesis by simp
  next
    case (Inr tk)
    let ?S = "env_or (process_env env ''SENDER_EMAIL'') ''adam@adammeeker.com''"
    let ?O = "env_or (process_env env ''OWNER_EMAIL'') ''adam@adammeeker.com''"
    let ?sj = "subject (replace_special it) (replace_special n)"
    let ?hb = "htmlBody (replace_special n) (replace_special em) (replace_special c)
                (replace_special it) (replace_newlines (replace_special ms))"
    obtain rs where sevs: "snd (sendEmail env tk ?S ?O ?sj ?hb) =
        Called_sendEmail tk ?S ?O ?sj ?hb # map Fetched rs"
      using snd_sendEmail [of env tk ?S ?O ?sj ?hb] by blast
    from Inr run have tr: "snd (handler env req) =
        Logged [LStr ''Contact form submission received''] # submission_log n em c it ms @
          snd (getAccessToken env) @ snd (sendEmail env tk ?S ?O ?sj ?hb) @
          [case fst (sendEmail env tk ?S ?O ?sj ?hb) of
             Inl err \<Rightarrow> Logged [LStr ''Email sending failed:'', LStr (err_message err)]
           | Inr ok \<Rightarrow> Logged [LStr ''Email sent successfully'']]"
      by (simp split: sum.splits)
    from assms Inr have "Called_sendEmail tok sender owner sj hb \<in> set (snd (handler env req))"
      and thrown: "fst (sendEmail env tok sender owner sj hb) = Inl e" by auto
    with tr gevs sevs have "Called_sendEmail tok sender owner sj hb = Called_sendEmail tk ?S ?O ?sj ?hb"
      by (auto simp: submission_log_def split: sum.splits)
    with thrown have "fst (sendEmail env tk ?S ?O ?sj ?hb) = Inl e" by simp
    with Inr run show ?thesis by simp
  qed
qed

theorem delivery_failure_200_witness:
  "Called_getAccessToken \<in> set (snd (handler unreachable (post valid_body))) \<and>
   fst (getAccessToken unreachable) = Inl (JsError ''TypeError'' ''fetch failed'') \<and>
   res_status (fst (handler unreachable (post valid_body))) = 200 \<and>
   res_body (fst (handler unreachable (post valid_body))) =
     Some (JObj [(''success'', JBool True),
       (''message'', JStr ''Thank you for your inquiry. We will be in touch within 24 hours.''),
       (''note'', JStr ''Email delivery may be delayed.'')]) \<and>
   Called_sendEmail (JStr ''t0k'') ''adam@adammeeker.com'' ''adam@adammeeker.com''
       ''[Meeker Technologies] Not specified - from Ann &lt;b&gt;''
       (htmlBody ''Ann &lt;b&gt;'' ''ann@example.org'' ''Not provided'' ''Not specified'' ''hi'')
     \<in> set (snd (handler mail_refused (post valid_body))) \<and>
   fst (sendEmail mail_refused (JStr ''t0k'') ''adam@adammeeker.com'' ''adam@adammeeker.com''
          ''[Meeker Technologies] Not specified - from Ann &lt;b&gt;''
          (htmlBody ''Ann &lt;b&gt;'' ''ann@example.org'' ''Not provided'' ''Not specified'' ''hi'')) =
     Inl (JsError ''Error'' ''Failed to send email: 403 - Forbidden'') \<and>
   res_status (fst (handler mail_refused (post valid_body))) = 200 \<and>
   last (snd (handler mail_refused (post valid_body))) =
     Logged [LStr ''Email sending failed:'', LStr ''Failed to send email: 403 - Forbidden'']"
proof -
  have a: "Called_getAccessToken \<in> set (snd (handler unreachable (post valid_body)))"
    by code_simp
  have b: "fst (getAccessToken unreachable) = Inl (JsError ''TypeError'' ''fetch failed'')"
    by code_simp
  have c: "Called_sendEmail (JStr ''t0k'') ''adam@adammeeker.com'' ''adam@adammeeker.com''
       ''[Meeker Technologies] Not specified - from Ann &lt;b&gt;''
       (htmlBody ''Ann &lt;b&gt;'' ''ann@example.org'' ''Not provided'' ''Not specified'' ''hi'')
     \<in> set (snd (handler mail_refused (post valid_body)))"
    by code_simp
  have d: "fst (sendEmail mail_refused (JStr ''t0k'') ''adam@adammeeker.com'' ''adam@adammeeker.com''
          ''[Meeker Technologies] Not specified - from Ann &lt;b&gt;''
          (htmlBody ''Ann &lt;b&gt;'' ''ann@example.org'' ''Not provided'' ''Not specified'' ''hi'')) =
     Inl (JsError ''Error'' ''Failed to send email: 403 - Forbidden'')"
    by code_simp
  from a b have h1: "(Called_getAccessToken \<in> set (snd (handler unreachable (post valid_body))) \<and>
              fst (getAccessToken unreachable) = Inl (JsError ''TypeError'' ''fetch failed'')) \<or>
           (Called_sendEmail JNull [] [] [] [] \<in> set (snd (handler unreachable (post valid_body))) \<and>
              fst (sendEmail unreachable JNull [] [] [] []) = Inl (JsError ''TypeError'' ''fetch failed''))"
    by simp
  from c d have h2: "(Called_getAccessToken \<in> set (snd (handler mail_refused (post valid_body))) \<and>
              fst (getAccessToken mail_refused) = Inl (JsError ''Error'' ''Failed to send email: 403 - Forbidden'')) \<or>
           (Called_sendEmail (JStr ''t0k'') ''adam@adammeeker.com'' ''adam@adammeeker.com''
       ''[Meeker Technologies] Not specified - from Ann &lt;b&gt;''
       (htmlBody ''Ann &lt;b&gt;'' ''ann@example.org'' ''Not provided'' ''Not specified'' ''hi'')
               \<in> set (snd (handler mail_refused (post valid_body))) \<and>
            fst (sendEmail mail_refused (JStr ''t0k'') ''adam@adammeeker.com'' ''adam@adammeeker.com''
          ''[Meeker Technologies] Not specified - from Ann &lt;b&gt;''
          (htmlBody ''Ann &lt;b&gt;'' ''ann@example.org'' ''Not provided'' ''Not specified'' ''hi'')) =
              Inl (JsError ''Error'' ''Failed to send email: 403 - Forbidden''))"
    by simp
  from delivery_failure_200 [OF h1] delivery_failure_200 [OF h2] a b c d
  show ?thesis by simp
qed

text \<open>
  Claim C2, as amended. For every valid request other than OPTIONS (empty honeypot;
  name, email and message present; the email matching the pattern) whose submitted
  fields convert to strings, the handler calls getAccessToken exactly once, which
  makes the one token request. When that call returns a token, the handler calls
  sendEmail exactly once, with the subject and the HTML body built from the five
  fields passed through escapeHtml, and sendEmail makes the one mail request carrying
  this subject and body (none if the token itself cannot be converted to a string for
  the Authorization header). When getAccessToken throws, sendEmail is not called and
  no mail request is made.
\<close>

theorem valid_submission_calls:
  assumes "req_method req \<noteq> ''OPTIONS''"
    and "\<not> truthy (field req ''honeypot'')"
    and "truthy (field req ''name'')" and "truthy (field req ''email'')"
    and "truthy (field req ''message'')"
    and "to_string (field req ''email'') = Inr e" and "rx_match emailRegex e"
    and "to_string (field req ''name'') = Inr n"
    and "to_string (js_or (field req ''company'') (JStr ''Not provided'')) = Inr c"
    and "interests_text (field req ''interests'') = Inr it"
    and "to_string (field req ''message'') = Inr m"
    and "sender = env_or (process_env env ''SENDER_EMAIL'') ''adam@adammeeker.com''"
    and "owner = env_or (process_env env ''OWNER_EMAIL'') ''adam@adammeeker.com''"
  shows "filter is_token_call (snd (handler env req)) = [Called_getAccessToken] \<and>
    (case fst (getAccessToken env) of
       Inl err \<Rightarrow>
         filter is_send_call (snd (handler env req)) = [] \<and>
         outbound (snd (handler env req)) = [token_request env]
     | Inr tok \<Rightarrow>
         (\<exists>safeName safeEmail safeCompany safeInterests escaped.
            escapeHtml (field req ''name'') = Inr safeName \<and>
            escapeHtml (field req ''email'') = Inr safeEmail \<and>
            escapeHtml (js_or (field req ''company'') (JStr ''Not provided'')) = Inr safeCompany \<and>
            escapeHtml (JStr it) = Inr safeInterests \<and>
            escapeHtml (field req ''message'') = Inr escaped \<and>
            filter is_send_call (snd (handler env req)) =
              [Called_sendEmail tok sender owner (subject safeInterests safeName)
                 (htmlBody safeName safeEmail safeCompany safeInterests (replace_newlines escaped))] \<and>
            outbound (snd (handler env req)) =
              token_request env #
                (case to_string tok of
                   Inl err \<Rightarrow> []
                 | Inr bearer \<Rightarrow>
                     [mail_request bearer sender owner (subject safeInterests safeName)
                        (htmlBody safeName safeEmail safeCompany safeInterests
                           (replace_newlines escaped))])))"
proof -
  from assms(6,7) have rx: "regex_test emailRegex (field req ''email'') = Inr True"
    by (simp add: regex_test_def)
  note run = handler_reached [OF assms(1-5) rx assms(10) assms(8) assms(6) assms(9) assms(11)
      assms(12) assms(13) refl refl refl]
  let ?sj = "subject (replace_special it) (replace_special n)"
  let ?hb = "htmlBody (replace_special n) (replace_special e) (replace_special c)
                (replace_special it) (replace_newlines (replace_special m))"
  have esc: "escapeHtml (field req ''name'') = Inr (replace_special n)"
    "escapeHtml (field req ''email'') = Inr (replace_special e)"
    "escapeHtml (js_or (field req ''company'') (JStr ''Not provided'')) = Inr (replace_special c)"
    "escapeHtml (JStr it) = Inr (replace_special it)"
    "escapeHtml (field req ''message'') = Inr (replace_special m)"
    using assms(3-6,8,9,11) by (simp_all add: escapeHtml_truthy escapeHtml_JStr)
  show ?thesis
  proof (cases "fst (getAccessToken env)")
    case (Inl err)
    with run have "snd (handler env req) =
        Logged [LStr ''Contact form submission received''] # submission_log n e c it m @
            snd (getAccessToken env) @
            [Logged [LStr ''Email sending failed:'', LStr (err_message err)]]" by simp
    with Inl show ?thesis by (simp add: snd_getAccessToken_exact)
  next
    case (Inr tok)
    with run have tr: "snd (handler env req) =
        Logged [LStr ''Contact form submission received''] # submission_log n e c it m @
          snd (getAccessToken env) @ snd (sendEmail env tok sender owner ?sj ?hb) @
          [case fst (sendEmail env tok sender owner ?sj ?hb) of
             Inl err \<Rightarrow> Logged [LStr ''Email sending failed:'', LStr (err_message err)]
           | Inr ok \<Rightarrow> Logged [LStr ''Email sent successfully'']]"
      by (simp split: sum.splits)
    have last_log: "is_log (case fst (sendEmail env tok sender owner ?sj ?hb) of
             Inl err \<Rightarrow> Logged [LStr ''Email sending failed:'', LStr (err_message err)]
           | Inr ok \<Rightarrow> Logged [LStr ''Email sent successfully''])"
      by (simp split: sum.splits)
    have calls: "filter is_token_call (snd (handler env req)) = [Called_getAccessToken]"
      "filter is_send_call (snd (handler env req)) = [Called_sendEmail tok sender owner ?sj ?hb]"
      "outbound (snd (handler env req)) =
         token_request env #
           (case to_string tok of Inl err \<Rightarrow> []
            | Inr bearer \<Rightarrow> [mail_request bearer sender owner ?sj ?hb])"
      unfolding tr snd_getAccessToken_exact snd_sendEmail_exact
      by (simp_all split: sum.splits)
    from Inr esc calls show ?thesis by simp
  qed
qed

theorem valid_submission_calls_witness:
  "req_method (post valid_body) \<noteq> ''OPTIONS'' \<and>
   \<not> truthy (field (post valid_body) ''honeypot'') \<and>
   rx_match emailRegex ''ann@example.org'' \<and>
   fst (getAccessToken reachable) = Inr (JStr ''t0k'') \<and>
   filter is_token_call (snd (handler reachable (post valid_body))) = [Called_getAccessToken] \<and>
   filter is_send_call (snd (handler reachable (post valid_body))) =
     [Called_sendEmail (JStr ''t0k'') ''adam@adammeeker.com'' ''adam@adammeeker.com''
        ''[Meeker Technologies] Not specified - from Ann &lt;b&gt;''
        (htmlBody ''Ann &lt;b&gt;'' ''ann@example.org'' ''Not provided'' ''Not specified'' ''hi'')] \<and>
   outbound (snd (handler reachable (post valid_body))) =
     [token_request reachable,
      mail_request ''t0k'' ''adam@adammeeker.com'' ''adam@adammeeker.com''
        ''[Meeker Technologies] Not specified - from Ann &lt;b&gt;''
        (htmlBody ''Ann &lt;b&gt;'' ''ann@example.org'' ''Not provided'' ''Not specified'' ''hi'')]"
proof -
  have a: "req_method (post valid_body) \<noteq> ''OPTIONS''"
    "\<not> truthy (field (post valid_body) ''honeypot'')"
    "truthy (field (post valid_body) ''name'')"
    "truthy (field (post valid_body) ''email'')"
    "truthy (field (post valid_body) ''message'')"
    by code_simp+
  have b: "to_string (field (post valid_body) ''email'') = Inr ''ann@example.org''"
    "to_string (field (post valid_body) ''name'') = Inr ''Ann <b>''"
    "to_string (js_or (field (post valid_body) ''company'') (JStr ''Not provided'')) = Inr ''Not provided''"
    "interests_text (field (post valid_body) ''interests'') = Inr ''Not specified''"
    "to_string (field (post valid_body) ''message'') = Inr ''hi''"
    by code_simp+
  have c: "rx_match emailRegex ''ann@example.org''" by code_simp
  have d: "''adam@adammeeker.com'' = env_or (process_env reachable ''SENDER_EMAIL'') ''adam@adammeeker.com''"
    "''adam@adammeeker.com'' = env_or (process_env reachable ''OWNER_EMAIL'') ''adam@adammeeker.com''"
    by code_simp+
  have t: "fst (getAccessToken reachable) = Inr (JStr ''t0k'')" by code_simp
  have esc: "escapeHtml (field (post valid_body) ''name'') = Inr ''Ann &lt;b&gt;''"
    "escapeHtml (field (post valid_body) ''email'') = Inr ''ann@example.org''"
    "escapeHtml (js_or (field (post valid_body) ''company'') (JStr ''Not provided'')) = Inr ''Not provided''"
    "escapeHtml (JStr ''Not specified'') = Inr ''Not specified''"
    "escapeHtml (field (post valid_body) ''message'') = Inr ''hi''"
    "replace_newlines ''hi'' = ''hi''"
    by code_simp+
  from valid_submission_calls [OF a b(1) c b(2-5) d] t esc a(1,2) c
  show ?thesis by (auto simp: subject_def)
qed

text \<open>
  Claim C2 as stated fails twice. When every \<^verbatim>\<open>fetch\<close> rejects, a valid request leads
  to one call of getAccessToken and no call of sendEmail. And a request that is valid
  in the claim's sense but whose name is an object with an own \<^verbatim>\<open>toString\<close> is
  answered 500 before any call.
\<close>

theorem valid_submission_without_mail:
  "req_method (post valid_body) \<noteq> ''OPTIONS'' \<and>
   \<not> truthy (field (post valid_body) ''honeypot'') \<and>
   truthy (field (post valid_body) ''name'') \<and>
   truthy (field (post valid_body) ''email'') \<and>
   truthy (field (post valid_body) ''message'') \<and>
   regex_test emailRegex (field (post valid_body) ''email'') = Inr True \<and>
   filter is_token_call (snd (handler unreachable (post valid_body))) = [Called_getAccessToken] \<and>
   filter is_send_call (snd (handler unreachable (post valid_body))) = [] \<and>
   outbound (snd (handler unreachable (post valid_body))) = [token_request unreachable] \<and>
   \<not> truthy (field (post odd_name_body) ''honeypot'') \<and>
   truthy (field (post odd_name_body) ''name'') \<and>
   truthy (field (post odd_name_body) ''email'') \<and>
   truthy (field (post odd_name_body) ''message'') \<and>
   regex_test emailRegex (field (post odd_name_body) ''email'') = Inr True \<and>
   filter is_token_call (snd (handler reachable (post odd_name_body))) = [] \<and>
   filter is_send_call (snd (handler reachable (post odd_name_body))) = [] \<and>
   outbound (snd (handler reachable (post odd_name_body))) = [] \<and>
   res_status (fst (handler reachable (post odd_name_body))) = 500"
  by code_simp

text \<open>
  Claim C10, as amended. For every request other than OPTIONS whose honeypot field is
  empty and on which no conversion to a string that the full handler performs throws
  (the email's, when name, email and message are present; and then, when the email
  passes the pattern, those of the interests, the name, the company and the message),
  the simple handler and the full handler return the same status, whatever the token
  and mail calls do: 400 exactly when name, email or message is missing or the email
  fails the pattern, and 200 otherwise.
\<close>

theorem handlers_agree:
  assumes "req_method req \<noteq> ''OPTIONS''"
    and "\<not> truthy (field req ''honeypot'')"
    and "truthy (field req ''name'') \<and> truthy (field req ''email'') \<and>
         truthy (field req ''message'') \<longrightarrow>
           converts (to_string (field req ''email'')) \<and>
           (regex_test emailRegex (field req ''email'') = Inr True \<longrightarrow>
              converts (interests_text (field req ''interests'')) \<and>
              converts (to_string (field req ''name'')) \<and>
              converts (to_string (js_or (field req ''company'') (JStr ''Not provided''))) \<and>
              converts (to_string (field req ''message'')))"
  shows "res_status (fst (handler env req)) =
           (if \<not> truthy (field req ''name'') \<or> \<not> truthy (field req ''email'') \<or>
               \<not> truthy (field req ''message'') \<or>
               regex_test emailRegex (field req ''email'') \<noteq> Inr True
            then 400 else 200) \<and>
         (\<exists>res. fst (simple_handler now req) = Inr res \<and>
                res_status res = res_status (fst (handler env req)))"
proof (cases "\<not> truthy (field req ''name'') \<or> \<not> truthy (field req ''email'') \<or>
               \<not> truthy (field req ''message'')")
  case True
  with assms(2)
  have "handle_submission env ((''Content-Type'', ''application/json'') # corsHeaders req) (req_body req) =
     (Inr \<lparr>res_status = 400, res_headers = (''Content-Type'', ''application/json'') # corsHeaders req,
           res_body = Some (JObj [(''success'', JBool False),
             (''error'', JStr ''Name, email, and message are required'')])\<rparr>, [])"
    unfolding field_def by (rule hs_missing)
  with assms(1) have "res_status (fst (handler env req)) = 400" by (simp add: handler_returns)
  with True show ?thesis by (simp add: simple_missing)
next
  case False
  then have p: "truthy (field req ''name'')" "truthy (field req ''email'')"
    "truthy (field req ''message'')" by simp_all
  with assms(3) have "converts (to_string (field req ''email''))" by simp
  then obtain e where e: "to_string (field req ''email'') = Inr e"
    unfolding converts_iff ..
  then have rx: "regex_test emailRegex (field req ''email'') = Inr (rx_match emailRegex e)"
    by (simp add: regex_test_def)
  show ?thesis
  proof (cases "rx_match emailRegex e")
    case nomatch: False
    with rx assms(2) p
    have "handle_submission env ((''Content-Type'', ''application/json'') # corsHeaders req) (req_body req) =
     (Inr \<lparr>res_status = 400, res_headers = (''Content-Type'', ''application/json'') # corsHeaders req,
           res_body = Some (JObj [(''success'', JBool False),
             (''error'', JStr ''Invalid email format'')])\<rparr>, [])"
      by (simp add: field_def hs_invalid)
    with assms(1) have "res_status (fst (handler env req)) = 400" by (simp add: handler_returns)
    with nomatch rx p show ?thesis by (simp add: simple_checked)
  next
    case match: True
    with rx have rx': "regex_test emailRegex (field req ''email'') = Inr True" by simp
    with assms(3) p have "converts (interests_text (field req ''interests''))"
      "converts (to_string (field req ''name''))"
      "converts (to_string (js_or (field req ''company'') (JStr ''Not provided'')))"
      "converts (to_string (field req ''message''))" by simp_all
    then obtain it n c m where v: "interests_text (field req ''interests'') = Inr it"
      "to_string (field req ''name'') = Inr n"
      "to_string (js_or (field req ''company'') (JStr ''Not provided'')) = Inr c"
      "to_string (field req ''message'') = Inr m"
      unfolding converts_iff by (elim exE)
    from handler_reached [OF assms(1,2) p rx' v(1) v(2) e v(3) v(4)
        refl refl refl refl refl, of env]
    have "res_status (fst (handler env req)) = 200" by (simp split: sum.splits)
    with rx' p show ?thesis by (simp add: simple_checked)
  qed
qed

theorem handlers_agree_witness:
  "req_method (post valid_body) \<noteq> ''OPTIONS'' \<and>
   \<not> truthy (field (post valid_body) ''honeypot'') \<and>
   regex_test emailRegex (field (post valid_body) ''email'') = Inr True \<and>
   res_status (fst (handler unreachable (post valid_body))) = 200 \<and>
   (\<exists>res. fst (simple_handler ''2026-01-01T00:00:00.000Z'' (post valid_body)) = Inr res \<and>
          res_status res = res_status (fst (handler unreachable (post valid_body)))) \<and>
   \<not> truthy (field (post odd_message_body) ''honeypot'') \<and>
   \<not> truthy (field (post odd_message_body) ''name'') \<and>
   \<not> converts (to_string (field (post odd_message_body) ''message'')) \<and>
   res_status (fst (handler reachable (post odd_message_body))) = 400 \<and>
   (\<exists>res. fst (simple_handler ''2026-01-01T00:00:00.000Z'' (post odd_message_body)) = Inr res \<and>
          res_status res = res_status (fst (handler reachable (post odd_message_body)))) \<and>
   regex_test emailRegex
     (field (post (JObj [(''name'', JStr ''Ann''), (''email'', JStr ''ann.example.org''),
                         (''interests'', JArr [JStr ''AI'', JStr ''Cloud'']),
                         (''message'', JObj [(''toString'', JNum ''1'')])])) ''email'') = Inr False \<and>
   res_status (fst (handler reachable
     (post (JObj [(''name'', JStr ''Ann''), (''email'', JStr ''ann.example.org''),
                  (''interests'', JArr [JStr ''AI'', JStr ''Cloud'']),
                  (''message'', JObj [(''toString'', JNum ''1'')])])))) = 400 \<and>
   (\<exists>res. fst (simple_handler ''2026-01-01T00:00:00.000Z''
       (post (JObj [(''name'', JStr ''Ann''), (''email'', JStr ''ann.example.org''),
                    (''interests'', JArr [JStr ''AI'', JStr ''Cloud'']),
                    (''message'', JObj [(''toString'', JNum ''1'')])]))) = Inr res \<and>
          res_status res = res_status (fst (handler reachable
       (post (JObj [(''name'', JStr ''Ann''), (''email'', JStr ''ann.example.org''),
                    (''interests'', JArr [JStr ''AI'', JStr ''Cloud'']),
                    (''message'', JObj [(''toString'', JNum ''1'')])])))))"
proof -
  let ?r = "post (JObj [(''name'', JStr ''Ann''), (''email'', JStr ''ann.example.org''),
                        (''interests'', JArr [JStr ''AI'', JStr ''Cloud'']),
                        (''message'', JObj [(''toString'', JNum ''1'')])])"
  have a: "req_method (post valid_body) \<noteq> ''OPTIONS''"
    "\<not> truthy (field (post valid_body) ''honeypot'')"
    "truthy (field (post valid_body) ''name'') \<and> truthy (field (post valid_body) ''email'') \<and>
         truthy (field (post valid_body) ''message'') \<longrightarrow>
           converts (to_string (field (post valid_body) ''email'')) \<and>
           (regex_test emailRegex (field (post valid_body) ''email'') = Inr True \<longrightarrow>
              converts (interests_text (field (post valid_body) ''interests'')) \<and>
              converts (to_string (field (post valid_body) ''name'')) \<and>
              converts (to_string (js_or (field (post valid_body) ''company'') (JStr ''Not provided''))) \<and>
              converts (to_string (field (post valid_body) ''message'')))"
    by code_simp+
  have a': "truthy (field (post valid_body) ''name'')" "truthy (field (post valid_body) ''email'')"
    "truthy (field (post valid_body) ''message'')"
    "regex_test emailRegex (field (post valid_body) ''email'') = Inr True"
    by code_simp+
  have b: "req_method (post odd_message_body) \<noteq> ''OPTIONS''"
    "\<not> truthy (field (post odd_message_body) ''honeypot'')"
    "truthy (field (post odd_message_body) ''name'') \<and> truthy (field (post odd_message_body) ''email'') \<and>
         truthy (field (post odd_message_body) ''message'') \<longrightarrow>
           converts (to_string (field (post odd_message_body) ''email'')) \<and>
           (regex_test emailRegex (field (post odd_message_body) ''email'') = Inr True \<longrightarrow>
              converts (interests_text (field (post odd_message_body) ''interests'')) \<and>
              converts (to_string (field (post odd_message_body) ''name'')) \<and>
              converts (to_string (js_or (field (post odd_message_body) ''company'') (JStr ''Not provided''))) \<and>
              converts (to_string (field (post odd_message_body) ''message'')))"
    by code_simp+
  have b': "\<not> truthy (field (post odd_message_body) ''name'')"
    "\<not> converts (to_string (field (post odd_message_body) ''message''))"
    by code_simp+
  have c: "req_method ?r \<noteq> ''OPTIONS''"
    "\<not> truthy (field ?r ''honeypot'')"
    "truthy (field ?r ''name'') \<and> truthy (field ?r ''email'') \<and>
         truthy (field ?r ''message'') \<longrightarrow>
           converts (to_string (field ?r ''email'')) \<and>
           (regex_test emailRegex (field ?r ''email'') = Inr True \<longrightarrow>
              converts (interests_text (field ?r ''interests'')) \<and>
              converts (to_string (field ?r ''name'')) \<and>
              converts (to_string (js_or (field ?r ''company'') (JStr ''Not provided''))) \<and>
              converts (to_string (field ?r ''message'')))"
    by code_simp+
  have c': "regex_test emailRegex (field ?r ''email'') = Inr False" by code_simp
  note w1 = handlers_agree [OF a, of unreachable "''2026-01-01T00:00:00.000Z''"]
  note w2 = handlers_agree [OF b, of reachable "''2026-01-01T00:00:00.000Z''"]
  note w3 = handlers_agree [OF c, of reachable "''2026-01-01T00:00:00.000Z''"]
  from w1 a' have s1: "res_status (fst (handler unreachable (post valid_body))) = 200" by simp
  from w2 b' have s2: "res_status (fst (handler reachable (post odd_message_body))) = 400" by simp
  from w3 c' have s3: "res_status (fst (handler reachable ?r)) = 400" by simp
  from w1 have e1: "\<exists>res. fst (simple_handler ''2026-01-01T00:00:00.000Z'' (post valid_body)) = Inr res \<and>
          res_status res = res_status (fst (handler unreachable (post valid_body)))"
    by (rule conjunct2)
  from w2 have e2: "\<exists>res. fst (simple_handler ''2026-01-01T00:00:00.000Z'' (post odd_message_body)) = Inr res \<and>
          res_status res = res_status (fst (handler reachable (post odd_message_body)))"
    by (rule conjunct2)
  from w3 have e3: "\<exists>res. fst (simple_handler ''2026-01-01T00:00:00.000Z'' ?r) = Inr res \<and>
          res_status res = res_status (fst (handler reachable ?r))"
    by (rule conjunct2)
  from a(1) a(2) a'(4) s1 e1 b(2) b'(1) b'(2) s2 e2 c' s3 e3 show ?thesis by (intro conjI)
qed

text \<open>
  Claim C10 as stated fails: with an empty honeypot and a name that is an object with
  an own \<^verbatim>\<open>toString\<close>, the full handler answers 500 (the log line converts the name)
  and the simple handler 200 (it logs the object as it is).
\<close>

theorem handlers_disagree:
  "req_method (post odd_name_body) \<noteq> ''OPTIONS'' \<and>
   \<not> truthy (field (post odd_name_body) ''honeypot'') \<and>
   truthy (field (post odd_name_body) ''name'') \<and>
   truthy (field (post odd_name_body) ''email'') \<and>
   truthy (field (post odd_name_body) ''message'') \<and>
   regex_test emailRegex (field (post odd_name_body) ''email'') = Inr True \<and>
   res_status (fst (handler reachable (post odd_name_body))) = 500 \<and>
   fst (simple_handler ''2026-01-01T00:00:00.000Z'' (post odd_name_body)) =
     Inr \<lparr>res_status = 200, res_headers = [(''Content-Type'', ''application/json'')],
           res_body = Some (JObj [(''success'', JBool True),
             (''message'', JStr ''Thank you for your inquiry. We will be in touch within 24 hours.'')])\<rparr>"
  by code_simp

end
